theory Spec2Isabelle
  imports Main "HOL-Library.Sublist"
begin

section \<open>Python strings\<close>

text \<open>
  A Python \<open>str\<close> is modelled as a \<^typ>\<open>string\<close>, a list of 8-bit characters. The few
  non-ASCII code points of the tables (location labels such as the capital of North
  Rhine-Westphalia) are written as their UTF-8 bytes; no modelled function measures or
  compares them. The character classes are the ASCII ones: \<open>is_digit\<close> stands for the
  regular expression class \<open>\d\<close> and \<open>upper_str\<close>, \<open>lower_str\<close> for \<open>str.upper\<close>,
  \<open>str.lower\<close> on ASCII input. \<open>s.startswith(p)\<close> is \<^term>\<open>prefix p s\<close> and
  \<open>p in s\<close> on strings is \<^term>\<open>sublist p s\<close>.
\<close>

definition is_digit :: "char \<Rightarrow> bool" where
  "is_digit c \<longleftrightarrow> c \<in> set ''0123456789''"

definition upper_char :: "char \<Rightarrow> char" where
  "upper_char c =
     (case map_of (zip ''abcdefghijklmnopqrstuvwxyz'' ''ABCDEFGHIJKLMNOPQRSTUVWXYZ'') c of
        None \<Rightarrow> c
      | Some u \<Rightarrow> u)"

definition lower_char :: "char \<Rightarrow> char" where
  "lower_char c =
     (case map_of (zip ''ABCDEFGHIJKLMNOPQRSTUVWXYZ'' ''abcdefghijklmnopqrstuvwxyz'') c of
        None \<Rightarrow> c
      | Some l \<Rightarrow> l)"

definition upper_str :: "string \<Rightarrow> string" where
  "upper_str s = map upper_char s"

definition lower_str :: "string \<Rightarrow> string" where
  "lower_str s = map lower_char s"

text \<open>\<open>s.replace('+', '')\<close>: every occurrence of the plus sign is removed.\<close>

definition remove_plus :: "string \<Rightarrow> string" where
  "remove_plus s = filter (\<lambda>c. c \<noteq> CHR ''+'') s"

text \<open>The slice \<open>s[a:b]\<close> for \<open>0 \<le> a \<le> b\<close>; \<open>s[:b]\<close> is \<^term>\<open>take b s\<close> and \<open>s[a:]\<close> is
  \<^term>\<open>drop a s\<close>. Slices never raise.\<close>

definition slice :: "nat \<Rightarrow> nat \<Rightarrow> string \<Rightarrow> string" where
  "slice a b s = take (b - a) (drop a s)"

text \<open>Truth value of an \<open>Optional[str]\<close>: \<open>None\<close> and the empty string are false.\<close>

fun truthy :: "string option \<Rightarrow> bool" where
  "truthy None = False"
| "truthy (Some s) = (s \<noteq> [])"

datatype py_error = KeyError string | AttributeError

section \<open>The phone system (international\_phone\_system.py)\<close>

subsection \<open>Data model\<close>

text \<open>
  The dataclass \<open>PhoneNumberInfo\<close>, field for field.
\<close>

record PhoneNumberInfo =
  raw_number :: string
  formatted_number :: string
  international_format :: string
  country_code :: string
  national_number :: string
  area_code :: "string option"
  is_valid :: bool
  phone_type :: string
  country_name :: string
  timezone :: string

text \<open>
  An entry of \<open>INTERNATIONAL_PHONE_DATABASE\<close>. The entries are dictionaries read by
  string key; the keys become the fields below, prefixed with \<open>ph_\<close> because
  \<open>PhoneNumberInfo\<close> and the jurisdiction table use the same key names. The keys
  \<open>phone_formats\<close> and \<open>emergency_numbers\<close> are left out: none of the functions modelled
  here reads them. \<open>ph_area_codes\<close> is \<open>None\<close> when the key \<open>area_codes\<close> is absent (the
  source reads it with \<open>.get("area_codes", {})\<close>); a dictionary is the list of its items in
  insertion order, which is the order Python iterates it in.
\<close>

record CountryPhoneInfo =
  ph_country_code :: string
  ph_calling_code :: string
  ph_country_name :: string
  ph_national_prefix :: string
  ph_international_prefix :: string
  ph_mobile_prefixes :: "string list"
  ph_area_codes :: "(string \<times> string) list option"

subsection \<open>The country table\<close>

definition united_states_phone :: CountryPhoneInfo where
  "united_states_phone = \<lparr>
     ph_country_code = ''US'',
     ph_calling_code = ''+1'',
     ph_country_name = ''United States'',
     ph_national_prefix = ''1'',
     ph_international_prefix = ''011'',
     ph_mobile_prefixes = [],
     ph_area_codes = Some
       [(''303'', ''Denver Metro Area''),
        (''720'', ''Denver Metro Area (overlay)''),
        (''719'', ''Colorado Springs, Pueblo''),
        (''970'', ''Northern and Western Colorado''),
        (''213'', ''Los Angeles''),
        (''310'', ''West Los Angeles, Beverly Hills''),
        (''323'', ''Los Angeles (overlay)''),
        (''415'', ''San Francisco''),
        (''510'', ''Oakland, Berkeley''),
        (''650'', ''San Mateo County''),
        (''707'', ''Napa, Santa Rosa''),
        (''714'', ''Orange County''),
        (''760'', ''San Diego County North''),
        (''805'', ''Santa Barbara, Ventura''),
        (''818'', ''San Fernando Valley''),
        (''831'', ''Monterey, Santa Cruz''),
        (''858'', ''San Diego''),
        (''909'', ''San Bernardino''),
        (''916'', ''Sacramento''),
        (''949'', ''South Orange County''),
        (''212'', ''Manhattan''),
        (''347'', ''NYC (overlay)''),
        (''646'', ''Manhattan (overlay)''),
        (''718'', ''Brooklyn, Queens, Bronx, Staten Island''),
        (''917'', ''NYC (overlay)''),
        (''214'', ''Dallas''),
        (''281'', ''Houston suburbs''),
        (''512'', ''Austin''),
        (''713'', ''Houston''),
        (''832'', ''Houston (overlay)''),
        (''972'', ''Dallas suburbs'')]
   \<rparr>"

definition canada_phone :: CountryPhoneInfo where
  "canada_phone = \<lparr>
     ph_country_code = ''CA'',
     ph_calling_code = ''+1'',
     ph_country_name = ''Canada'',
     ph_national_prefix = ''1'',
     ph_international_prefix = ''011'',
     ph_mobile_prefixes = [],
     ph_area_codes = Some
       [(''416'', ''Toronto''),
        (''647'', ''Toronto (overlay)''),
        (''437'', ''Toronto (overlay)''),
        (''613'', ''Ottawa''),
        (''905'', ''Greater Toronto Area''),
        (''289'', ''Hamilton area (overlay)''),
        (''519'', ''London, Windsor''),
        (''705'', ''Northern Ontario''),
        (''807'', ''Thunder Bay area''),
        (''604'', ''Vancouver''),
        (''778'', ''Vancouver (overlay)''),
        (''236'', ''Vancouver (overlay)''),
        (''250'', ''Rest of British Columbia''),
        (''403'', ''Calgary''),
        (''587'', ''Calgary (overlay)''),
        (''780'', ''Edmonton''),
        (''825'', ''Edmonton (overlay)''),
        (''514'', ''Montreal''),
        (''438'', ''Montreal (overlay)''),
        (''450'', ''Montreal suburbs''),
        (''579'', ''Montreal suburbs (overlay)''),
        (''418'', ''Quebec City''),
        (''819'', ''Eastern Quebec'')]
   \<rparr>"

definition australia_phone :: CountryPhoneInfo where
  "australia_phone = \<lparr>
     ph_country_code = ''AU'',
     ph_calling_code = ''+61'',
     ph_country_name = ''Australia'',
     ph_national_prefix = ''0'',
     ph_international_prefix = ''0011'',
     ph_mobile_prefixes = [''04'', ''05''],
     ph_area_codes = Some
       [(''02'', ''New South Wales, Australian Capital Territory''),
        (''03'', ''Victoria, Tasmania''),
        (''07'', ''Queensland''),
        (''08'', ''South Australia, Western Australia, Northern Territory''),
        (''04'', ''Mobile phones''),
        (''05'', ''Mobile phones (alternative)'')]
   \<rparr>"

definition united_kingdom_phone :: CountryPhoneInfo where
  "united_kingdom_phone = \<lparr>
     ph_country_code = ''GB'',
     ph_calling_code = ''+44'',
     ph_country_name = ''United Kingdom'',
     ph_national_prefix = ''0'',
     ph_international_prefix = ''00'',
     ph_mobile_prefixes = [''07''],
     ph_area_codes = Some
       [(''020'', ''London''),
        (''0121'', ''Birmingham''),
        (''0131'', ''Edinburgh''),
        (''0141'', ''Glasgow''),
        (''0151'', ''Liverpool''),
        (''0161'', ''Manchester''),
        (''0113'', ''Leeds''),
        (''0114'', ''Sheffield''),
        (''0115'', ''Nottingham''),
        (''0116'', ''Leicester''),
        (''0117'', ''Bristol''),
        (''0118'', ''Reading''),
        (''01223'', ''Cambridge''),
        (''01865'', ''Oxford''),
        (''01904'', ''York'')]
   \<rparr>"

definition germany_phone :: CountryPhoneInfo where
  "germany_phone = \<lparr>
     ph_country_code = ''DE'',
     ph_calling_code = ''+49'',
     ph_country_name = ''Germany'',
     ph_national_prefix = ''0'',
     ph_international_prefix = ''00'',
     ph_mobile_prefixes = [''015'', ''016'', ''017''],
     ph_area_codes = Some
       [(''030'', ''Berlin''),
        (''040'', ''Hamburg''),
        (''069'', ''Frankfurt am Main''),
        (''089'', ''Munich''),
        (''0221'', ''Cologne''),
        (''0211'', ''D'' @ [CHR 0xC3, CHR 0xBC] @ ''sseldorf''),
        (''0201'', ''Essen''),
        (''0231'', ''Dortmund''),
        (''0711'', ''Stuttgart''),
        (''0351'', ''Dresden'')]
   \<rparr>"

definition france_phone :: CountryPhoneInfo where
  "france_phone = \<lparr>
     ph_country_code = ''FR'',
     ph_calling_code = ''+33'',
     ph_country_name = ''France'',
     ph_national_prefix = ''0'',
     ph_international_prefix = ''00'',
     ph_mobile_prefixes = [''06'', ''07''],
     ph_area_codes = Some
       [(''01'', [CHR 0xC3, CHR 0x8E] @ ''le-de-France (Paris region)''),
        (''02'', ''Northwest France''),
        (''03'', ''Northeast France''),
        (''04'', ''Southeast France''),
        (''05'', ''Southwest France''),
        (''06'', ''Mobile phones''),
        (''07'', ''Mobile phones'')]
   \<rparr>"

definition brazil_phone :: CountryPhoneInfo where
  "brazil_phone = \<lparr>
     ph_country_code = ''BR'',
     ph_calling_code = ''+55'',
     ph_country_name = ''Brazil'',
     ph_national_prefix = ''0'',
     ph_international_prefix = ''00'',
     ph_mobile_prefixes = [''9''],
     ph_area_codes = Some
       [(''11'', ''S'' @ [CHR 0xC3, CHR 0xA3] @ ''o Paulo''),
        (''21'', ''Rio de Janeiro''),
        (''31'', ''Belo Horizonte''),
        (''41'', ''Curitiba''),
        (''47'', ''Joinville''),
        (''48'', ''Florian'' @ [CHR 0xC3, CHR 0xB3] @ ''polis''),
        (''51'', ''Porto Alegre''),
        (''61'', ''Bras'' @ [CHR 0xC3, CHR 0xAD] @ ''lia''),
        (''62'', ''Goi'' @ [CHR 0xC3, CHR 0xA2] @ ''nia''),
        (''71'', ''Salvador''),
        (''81'', ''Recife''),
        (''85'', ''Fortaleza'')]
   \<rparr>"

definition india_phone :: CountryPhoneInfo where
  "india_phone = \<lparr>
     ph_country_code = ''IN'',
     ph_calling_code = ''+91'',
     ph_country_name = ''India'',
     ph_national_prefix = ''0'',
     ph_international_prefix = ''00'',
     ph_mobile_prefixes = [''6'', ''7'', ''8'', ''9''],
     ph_area_codes = Some
       [(''11'', ''Delhi''),
        (''22'', ''Mumbai''),
        (''33'', ''Kolkata''),
        (''40'', ''Hyderabad''),
        (''44'', ''Chennai''),
        (''80'', ''Bangalore''),
        (''20'', ''Pune''),
        (''79'', ''Ahmedabad'')]
   \<rparr>"

definition japan_phone :: CountryPhoneInfo where
  "japan_phone = \<lparr>
     ph_country_code = ''JP'',
     ph_calling_code = ''+81'',
     ph_country_name = ''Japan'',
     ph_national_prefix = ''0'',
     ph_international_prefix = ''010'',
     ph_mobile_prefixes = [''070'', ''080'', ''090''],
     ph_area_codes = Some
       [(''03'', ''Tokyo''),
        (''06'', ''Osaka''),
        (''052'', ''Nagoya''),
        (''011'', ''Sapporo''),
        (''022'', ''Sendai''),
        (''092'', ''Fukuoka''),
        (''075'', ''Kyoto''),
        (''045'', ''Yokohama'')]
   \<rparr>"

definition mexico_phone :: CountryPhoneInfo where
  "mexico_phone = \<lparr>
     ph_country_code = ''MX'',
     ph_calling_code = ''+52'',
     ph_country_name = ''Mexico'',
     ph_national_prefix = ''01'',
     ph_international_prefix = ''00'',
     ph_mobile_prefixes = [''1''],
     ph_area_codes = Some
       [(''55'', ''Mexico City''),
        (''33'', ''Guadalajara''),
        (''81'', ''Monterrey''),
        (''222'', ''Puebla''),
        (''228'', ''Veracruz''),
        (''664'', ''Tijuana''),
        (''998'', ''Canc'' @ [CHR 0xC3, CHR 0xBA] @ ''n'')]
   \<rparr>"

definition INTERNATIONAL_PHONE_DATABASE :: "(string \<times> CountryPhoneInfo) list" where
  "INTERNATIONAL_PHONE_DATABASE =
     [(''united_states'', united_states_phone),
      (''canada'', canada_phone),
      (''australia'', australia_phone),
      (''united_kingdom'', united_kingdom_phone),
      (''germany'', germany_phone),
      (''france'', france_phone),
      (''brazil'', brazil_phone),
      (''india'', india_phone),
      (''japan'', japan_phone),
      (''mexico'', mexico_phone)]"

subsection \<open>Parsing\<close>

text \<open>
  A local variable of the source that has the name of a field of \<open>PhoneNumberInfo\<close> carries
  a prime here (\<open>national_number'\<close>, \<open>area_code'\<close>): the field name is a constant.
\<close>

definition clean_phone_number :: "string \<Rightarrow> string" where
  "clean_phone_number phone_number =
     (if prefix ''+'' phone_number then CHR ''+'' # filter is_digit (drop 1 phone_number)
      else filter is_digit phone_number)"

text \<open>The loop of \<open>_detect_country_from_number\<close> over the items of the table.\<close>

fun detect_country_loop :: "(string \<times> CountryPhoneInfo) list \<Rightarrow> string \<Rightarrow> string option" where
  "detect_country_loop [] cleaned_number = None"
| "detect_country_loop ((country_key, country_info) # rest) cleaned_number =
     (let calling_code = remove_plus (ph_calling_code country_info)
      in if prefix calling_code (drop 1 cleaned_number) then Some country_key
         else detect_country_loop rest cleaned_number)"

definition detect_country_from_number :: "string \<Rightarrow> string option" where
  "detect_country_from_number cleaned_number =
     (if \<not> prefix ''+'' cleaned_number then None
      else detect_country_loop INTERNATIONAL_PHONE_DATABASE cleaned_number)"

fun country_key_loop :: "(string \<times> CountryPhoneInfo) list \<Rightarrow> string \<Rightarrow> string option" where
  "country_key_loop [] code = None"
| "country_key_loop ((country_key, country_info) # rest) code =
     (if ph_country_code country_info = upper_str code then Some country_key
      else country_key_loop rest code)"

definition get_country_key_from_code :: "string \<Rightarrow> string option" where
  "get_country_key_from_code code = country_key_loop INTERNATIONAL_PHONE_DATABASE code"

definition validate_number_for_country :: "string \<Rightarrow> CountryPhoneInfo \<Rightarrow> bool" where
  "validate_number_for_country national_number' country_info =
     (let cc = ph_country_code country_info; n = length national_number'
      in if cc \<in> set [''US'', ''CA''] then n = 10
         else if cc = ''AU'' then n = 9
         else if cc = ''GB'' then 10 \<le> n \<and> n \<le> 11
         else if cc = ''DE'' then 10 \<le> n \<and> n \<le> 12
         else if cc = ''FR'' then n = 9
         else if cc = ''IN'' then n = 10
         else if cc = ''JP'' then 10 \<le> n \<and> n \<le> 11
         else n \<ge> 7)"

definition determine_phone_type :: "string \<Rightarrow> CountryPhoneInfo \<Rightarrow> string" where
  "determine_phone_type national_number' country_info =
     (if list_ex (\<lambda>p. prefix p national_number') (ph_mobile_prefixes country_info) then ''mobile''
      else if prefix ''800'' national_number' \<or> prefix ''855'' national_number' then ''toll_free''
      else if prefix ''900'' national_number' then ''premium''
      else ''landline'')"

text \<open>The loop of \<open>_extract_area_code\<close> over the candidate lengths.\<close>

fun area_code_loop :: "nat list \<Rightarrow> string \<Rightarrow> (string \<times> string) list \<Rightarrow> string option" where
  "area_code_loop [] national_number' codes = None"
| "area_code_loop (len # rest) national_number' codes =
     (if length national_number' \<ge> len \<and> map_of codes (take len national_number') \<noteq> None
      then Some (take len national_number')
      else area_code_loop rest national_number' codes)"

definition extract_area_code :: "string \<Rightarrow> CountryPhoneInfo \<Rightarrow> string option" where
  "extract_area_code national_number' country_info =
     (let codes = (case ph_area_codes country_info of None \<Rightarrow> [] | Some d \<Rightarrow> d)
      in area_code_loop [2, 3, 4, 5] national_number' codes)"

text \<open>
  The indexings \<open>national_number[0]\<close> are reached only when the length is 9, so they do not
  raise; every other access is a slice.
\<close>

definition apply_formatting :: "string \<Rightarrow> CountryPhoneInfo \<Rightarrow> string" where
  "apply_formatting national_number' country_info =
     (let cc = ph_country_code country_info; n = national_number'
      in if cc \<in> set [''US'', ''CA''] \<and> length n = 10
           then ''('' @ take 3 n @ '') '' @ slice 3 6 n @ ''-'' @ drop 6 n
         else if cc = ''AU'' \<and> length n = 9
           then [n ! 0] @ '' '' @ slice 1 5 n @ '' '' @ drop 5 n
         else if cc = ''GB''
           then (if length n = 10 then take 4 n @ '' '' @ slice 4 7 n @ '' '' @ drop 7 n
                 else take 3 n @ '' '' @ slice 3 6 n @ '' '' @ drop 6 n)
         else if cc = ''DE''
           then take 3 n @ '' '' @ drop 3 n
         else if cc = ''FR'' \<and> length n = 9
           then [n ! 0] @ '' '' @ slice 1 3 n @ '' '' @ slice 3 5 n @ '' '' @ slice 5 7 n
                  @ '' '' @ drop 7 n
         else n)"

definition format_number :: "string \<Rightarrow> CountryPhoneInfo \<Rightarrow> string \<Rightarrow> string" where
  "format_number national_number' country_info format_type =
     (if format_type = ''international''
      then ph_calling_code country_info @ '' '' @ apply_formatting national_number' country_info
      else apply_formatting national_number' country_info)"

definition timezone_mapping :: "(string \<times> (string \<times> string) list) list" where
  "timezone_mapping =
     [(''united_states'',
        [(''303'', ''America/Denver''),
         (''720'', ''America/Denver''),
         (''719'', ''America/Denver''),
         (''970'', ''America/Denver''),
         (''213'', ''America/Los_Angeles''),
         (''415'', ''America/Los_Angeles''),
         (''212'', ''America/New_York'')]),
      (''canada'',
        [(''416'', ''America/Toronto''),
         (''604'', ''America/Vancouver'')]),
      (''australia'',
        [(''02'', ''Australia/Sydney''),
         (''03'', ''Australia/Melbourne''),
         (''07'', ''Australia/Brisbane''),
         (''08'', ''Australia/Perth'')])]"

definition default_timezones :: "(string \<times> string) list" where
  "default_timezones =
     [(''united_states'', ''America/New_York''),
      (''canada'', ''America/Toronto''),
      (''australia'', ''Australia/Sydney''),
      (''united_kingdom'', ''Europe/London''),
      (''germany'', ''Europe/Berlin''),
      (''france'', ''Europe/Paris'')]"

text \<open>
  \<open>area_code in timezone_mapping[country_key]\<close> is false for the area code \<open>None\<close>, which is
  no key of any of the tables.
\<close>

definition get_timezone_for_area_code :: "string option \<Rightarrow> string \<Rightarrow> string" where
  "get_timezone_for_area_code area_code' country_key =
     (case (case map_of timezone_mapping country_key of
              None \<Rightarrow> None
            | Some by_area \<Rightarrow> (case area_code' of None \<Rightarrow> None | Some a \<Rightarrow> map_of by_area a)) of
        Some tz \<Rightarrow> tz
      | None \<Rightarrow>
          (case map_of default_timezones country_key of
             Some tz \<Rightarrow> tz
           | None \<Rightarrow> ''UTC''))"

definition parse_for_country :: "string \<Rightarrow> string \<Rightarrow> CountryPhoneInfo \<Rightarrow> PhoneNumberInfo" where
  "parse_for_country cleaned_number country_key country_info =
     (let calling_code = remove_plus (ph_calling_code country_info);
          stripped =
            (if prefix (CHR ''+'' # calling_code) cleaned_number
               then drop (length calling_code + 1) cleaned_number
             else if prefix calling_code cleaned_number
               then drop (length calling_code) cleaned_number
             else cleaned_number);
          national_prefix = ph_national_prefix country_info;
          national_number' =
            (if national_prefix \<noteq> [] \<and> prefix national_prefix stripped
               then drop (length national_prefix) stripped
             else stripped);
          area_code' = extract_area_code national_number' country_info
      in \<lparr> raw_number = cleaned_number,
           formatted_number = format_number national_number' country_info ''national'',
           international_format = format_number national_number' country_info ''international'',
           country_code = ph_country_code country_info,
           national_number = national_number',
           area_code = area_code',
           is_valid = validate_number_for_country national_number' country_info,
           phone_type = determine_phone_type national_number' country_info,
           country_name = ph_country_name country_info,
           timezone = get_timezone_for_area_code area_code' country_key \<rparr>)"

text \<open>
  Lines 419 to 430 of \<open>parse_phone_number\<close>: the key of the country the number is parsed
  for. The hint is read only when detection gave nothing.
\<close>

definition detected_country :: "string \<Rightarrow> string option \<Rightarrow> string" where
  "detected_country phone_number country_hint =
     (let cleaned_number = clean_phone_number phone_number;
          detected = detect_country_from_number cleaned_number;
          detected = (if \<not> truthy detected \<and> truthy country_hint
                      then get_country_key_from_code (the country_hint)
                      else detected)
      in if \<not> truthy detected then ''united_states'' else the detected)"

text \<open>
  The rest of \<open>parse_phone_number\<close>. \<open>self.phone_db[detected_country]\<close> raises \<open>KeyError\<close>
  for a key that is not in the table; that branch is the \<open>Inl\<close> result.
\<close>

definition parse_phone_number :: "string \<Rightarrow> string option \<Rightarrow> py_error + PhoneNumberInfo" where
  "parse_phone_number phone_number country_hint =
     (let cleaned_number = clean_phone_number phone_number;
          key = detected_country phone_number country_hint
      in case map_of INTERNATIONAL_PHONE_DATABASE key of
           None \<Rightarrow> Inl (KeyError key)
         | Some country_info \<Rightarrow> Inr (parse_for_country cleaned_number key country_info))"

subsection \<open>Dialing instructions\<close>

text \<open>
  Both loops of \<open>format_for_dialing\<close> stop at the first entry with the given ISO code.
\<close>

fun find_country_data :: "(string \<times> CountryPhoneInfo) list \<Rightarrow> string \<Rightarrow> CountryPhoneInfo option" where
  "find_country_data [] code = None"
| "find_country_data ((country_key, country_data) # rest) code =
     (if ph_country_code country_data = code then Some country_data
      else find_country_data rest code)"

text \<open>
  The result dictionary is the list of its items. A table entry is a non-empty dictionary,
  so \<open>not calling_from_info\<close> holds exactly when no entry was found.
\<close>

definition format_for_dialing :: "PhoneNumberInfo \<Rightarrow> string \<Rightarrow> (string \<times> string) list" where
  "format_for_dialing phone_info calling_from_country =
     (case find_country_data INTERNATIONAL_PHONE_DATABASE calling_from_country of
        None \<Rightarrow> [(''error'', ''Unknown calling country: '' @ calling_from_country)]
      | Some calling_from_info \<Rightarrow>
          (let international_prefix = ph_international_prefix calling_from_info;
               target_calling_code =
                 map_option (\<lambda>d. remove_plus (ph_calling_code d))
                   (find_country_data INTERNATIONAL_PHONE_DATABASE (country_code phone_info))
           in if \<not> truthy target_calling_code
                then [(''error'', ''Unknown target country: '' @ country_code phone_info)]
              else if calling_from_country = country_code phone_info
                then [(''domestic'', formatted_number phone_info),
                      (''international'', international_format phone_info),
                      (''dial_string'', national_number phone_info)]
              else [(''international'', international_format phone_info),
                    (''dial_string'',
                       international_prefix @ the target_calling_code @ national_number phone_info),
                    (''instructions'',
                       ''Dial '' @ international_prefix @ '' + '' @ the target_calling_code
                         @ '' + '' @ national_number phone_info)]))"

section \<open>The jurisdiction manager (main\_international\_manager.py)\<close>

subsection \<open>Data model\<close>

text \<open>
  An entry of \<open>INTERNATIONAL_JURISDICTIONS\<close> and an entry of its \<open>states\<close> dictionary, the
  keys prefixed with \<open>j_\<close> and \<open>st_\<close>. The postal-range hints and the \<open>major_cities\<close> of a
  state are left out: \<open>search_jurisdictions\<close> reads the name, the code and the capital only.
\<close>

record StateEntry =
  st_name :: string
  st_code :: string
  st_capital :: string

record JurisdictionEntry =
  j_country_name :: string
  j_country_code :: string
  j_legal_system :: string
  j_federal_system :: bool
  j_states :: "(string \<times> StateEntry) list"

subsection \<open>The tables\<close>

definition united_states_jurisdiction :: JurisdictionEntry where
  "united_states_jurisdiction = \<lparr>
     j_country_name = ''United States'',
     j_country_code = ''US'',
     j_legal_system = ''common_law'',
     j_federal_system = True,
     j_states =
       [(''colorado'', \<lparr>st_name = ''Colorado'', st_code = ''CO'', st_capital = ''Denver''\<rparr>),
        (''california'', \<lparr>st_name = ''California'', st_code = ''CA'', st_capital = ''Sacramento''\<rparr>),
        (''new_york'', \<lparr>st_name = ''New York'', st_code = ''NY'', st_capital = ''Albany''\<rparr>)]
   \<rparr>"

definition canada_jurisdiction :: JurisdictionEntry where
  "canada_jurisdiction = \<lparr>
     j_country_name = ''Canada'',
     j_country_code = ''CA'',
     j_legal_system = ''common_law'',
     j_federal_system = True,
     j_states =
       [(''ontario'', \<lparr>st_name = ''Ontario'', st_code = ''ON'', st_capital = ''Toronto''\<rparr>),
        (''british_columbia'', \<lparr>st_name = ''British Columbia'', st_code = ''BC'', st_capital = ''Victoria''\<rparr>)]
   \<rparr>"

definition australia_jurisdiction :: JurisdictionEntry where
  "australia_jurisdiction = \<lparr>
     j_country_name = ''Australia'',
     j_country_code = ''AU'',
     j_legal_system = ''common_law'',
     j_federal_system = True,
     j_states =
       [(''new_south_wales'', \<lparr>st_name = ''New South Wales'', st_code = ''NSW'', st_capital = ''Sydney''\<rparr>),
        (''victoria'', \<lparr>st_name = ''Victoria'', st_code = ''VIC'', st_capital = ''Melbourne''\<rparr>)]
   \<rparr>"

definition united_kingdom_jurisdiction :: JurisdictionEntry where
  "united_kingdom_jurisdiction = \<lparr>
     j_country_name = ''United Kingdom'',
     j_country_code = ''GB'',
     j_legal_system = ''common_law'',
     j_federal_system = False,
     j_states =
       [(''england'', \<lparr>st_name = ''England'', st_code = ''ENG'', st_capital = ''London''\<rparr>),
        (''scotland'', \<lparr>st_name = ''Scotland'', st_code = ''SCT'', st_capital = ''Edinburgh''\<rparr>)]
   \<rparr>"

definition germany_jurisdiction :: JurisdictionEntry where
  "germany_jurisdiction = \<lparr>
     j_country_name = ''Germany'',
     j_country_code = ''DE'',
     j_legal_system = ''civil_law'',
     j_federal_system = True,
     j_states =
       [(''bavaria'', \<lparr>st_name = ''Bavaria'', st_code = ''BY'', st_capital = ''Munich''\<rparr>),
        (''north_rhine_westphalia'', \<lparr>st_name = ''North Rhine-Westphalia'', st_code = ''NW'', st_capital = ''D'' @ [CHR 0xC3, CHR 0xBC] @ ''sseldorf''\<rparr>)]
   \<rparr>"

definition france_jurisdiction :: JurisdictionEntry where
  "france_jurisdiction = \<lparr>
     j_country_name = ''France'',
     j_country_code = ''FR'',
     j_legal_system = ''civil_law'',
     j_federal_system = False,
     j_states =
       [(''ile_de_france'', \<lparr>st_name = [CHR 0xC3, CHR 0x8E] @ ''le-de-France'', st_code = ''IDF'', st_capital = ''Paris''\<rparr>)]
   \<rparr>"

definition INTERNATIONAL_JURISDICTIONS :: "(string \<times> JurisdictionEntry) list" where
  "INTERNATIONAL_JURISDICTIONS =
     [(''united_states'', united_states_jurisdiction),
      (''canada'', canada_jurisdiction),
      (''australia'', australia_jurisdiction),
      (''united_kingdom'', united_kingdom_jurisdiction),
      (''germany'', germany_jurisdiction),
      (''france'', france_jurisdiction)]"

definition LEGAL_EQUIVALENCIES :: "(string \<times> (string \<times> string list) list) list" where
  "LEGAL_EQUIVALENCIES =
     [(''employment_law'',
        [(''common_law'', [''wrongful_termination'', ''discrimination'', ''harassment'', ''whistleblower'', ''wage_theft'']),
         (''civil_law'', [''employment_termination'', ''workplace_discrimination'', ''employee_protection'', ''salary_disputes''])]),
      (''civil_rights'',
        [(''common_law'', [''discrimination'', ''civil_liberties'', ''constitutional_rights'']),
         (''civil_law'', [''fundamental_rights'', ''equality_rights'', ''personal_rights''])])]"

subsection \<open>Search\<close>

text \<open>
  A result of \<open>search_jurisdictions\<close> is a dictionary with string values, written as the
  list of its items. The inner loop over the states of one country, then the outer loop
  over the countries; \<open>results.append\<close> becomes the list built in iteration order.
\<close>

definition country_result :: "string \<Rightarrow> JurisdictionEntry \<Rightarrow> (string \<times> string) list" where
  "country_result country_key country_data =
     [(''type'', ''country''),
      (''key'', country_key),
      (''name'', j_country_name country_data),
      (''code'', j_country_code country_data),
      (''legal_system'', j_legal_system country_data)]"

definition state_result ::
  "string \<Rightarrow> JurisdictionEntry \<Rightarrow> string \<Rightarrow> StateEntry \<Rightarrow> (string \<times> string) list" where
  "state_result country_key country_data state_key state_data =
     [(''type'', ''state''),
      (''country_key'', country_key),
      (''country_name'', j_country_name country_data),
      (''state_key'', state_key),
      (''state_name'', st_name state_data),
      (''state_code'', st_code state_data),
      (''capital'', st_capital state_data),
      (''legal_system'', j_legal_system country_data)]"

fun search_states ::
  "string \<Rightarrow> string \<Rightarrow> JurisdictionEntry \<Rightarrow> (string \<times> StateEntry) list
     \<Rightarrow> (string \<times> string) list list" where
  "search_states query_lower country_key country_data [] = []"
| "search_states query_lower country_key country_data ((state_key, state_data) # rest) =
     (if sublist query_lower (lower_str (st_name state_data))
         \<or> sublist query_lower (lower_str (st_code state_data))
         \<or> sublist query_lower (lower_str state_key)
      then [state_result country_key country_data state_key state_data]
      else [])
     @ search_states query_lower country_key country_data rest"

fun search_countries ::
  "string \<Rightarrow> (string \<times> JurisdictionEntry) list \<Rightarrow> (string \<times> string) list list" where
  "search_countries query_lower [] = []"
| "search_countries query_lower ((country_key, country_data) # rest) =
     (if sublist query_lower (lower_str (j_country_name country_data))
         \<or> sublist query_lower (lower_str (j_country_code country_data))
      then [country_result country_key country_data]
      else [])
     @ search_states query_lower country_key country_data (j_states country_data)
     @ search_countries query_lower rest"

definition search_jurisdictions :: "string \<Rightarrow> (string \<times> string) list list" where
  "search_jurisdictions query = search_countries (lower_str query) INTERNATIONAL_JURISDICTIONS"

subsection \<open>Equivalent claim types\<close>

text \<open>
  The inner loop of \<open>find_equivalent_claim_types\<close> over the legal systems of one category:
  what \<open>equivalents.extend\<close> adds before the \<open>break\<close>, or nothing when no system passes the
  test. The function returns \<open>list(set(equivalents))\<close>, whose order Python leaves open, so
  the result is the set.
\<close>

fun systems_loop :: "(string \<times> string list) list \<Rightarrow> string \<Rightarrow> string \<Rightarrow> string list" where
  "systems_loop [] claim_type target_legal_system = []"
| "systems_loop ((system, claims) # rest) claim_type target_legal_system =
     (if system = target_legal_system \<and> lower_str claim_type \<in> set (map lower_str claims)
      then claims
      else systems_loop rest claim_type target_legal_system)"

fun categories_loop ::
  "(string \<times> (string \<times> string list) list) list \<Rightarrow> string \<Rightarrow> string \<Rightarrow> string list" where
  "categories_loop [] claim_type target_legal_system = []"
| "categories_loop ((category, systems) # rest) claim_type target_legal_system =
     systems_loop systems claim_type target_legal_system
     @ categories_loop rest claim_type target_legal_system"

definition find_equivalent_claim_types :: "string \<Rightarrow> string \<Rightarrow> string set" where
  "find_equivalent_claim_types claim_type target_legal_system =
     set (categories_loop LEGAL_EQUIVALENCIES claim_type target_legal_system)"

text \<open>
  The same function as the specification words it: for every category in which the list
  of some other legal system holds the claim type, the list of the target system.
\<close>

definition spec_category_equivalents ::
  "(string \<times> string list) list \<Rightarrow> string \<Rightarrow> string \<Rightarrow> string list" where
  "spec_category_equivalents systems claim_type target_legal_system =
     (if list_ex (\<lambda>(system, claims). system \<noteq> target_legal_system
                     \<and> lower_str claim_type \<in> set (map lower_str claims)) systems
      then concat (map snd (filter (\<lambda>(system, claims). system = target_legal_system) systems))
      else [])"

definition spec_find_equivalent_claim_types :: "string \<Rightarrow> string \<Rightarrow> string set" where
  "spec_find_equivalent_claim_types claim_type target_legal_system =
     set (concat (map (\<lambda>(category, systems).
            spec_category_equivalents systems claim_type target_legal_system)
          LEGAL_EQUIVALENCIES))"

subsection \<open>Loading cases\<close>

text \<open>
  The case file is JSON. A case is an object; of a field value the filter only asks whether
  it is a string, on which \<open>.lower()\<close> works, or anything else (a number, \<open>null\<close>, a list),
  on which \<open>.lower()\<close> raises \<open>AttributeError\<close>. An element of the array that is no object
  has no \<open>.get\<close> and raises as well.
\<close>

datatype json_value = JStr string | JOther

datatype case_entry = Case "(string \<times> json_value) list" | NotACase

text \<open>
  What a path of the file system holds: nothing (the path does not exist), a file that
  cannot be read as a JSON array (\<open>open\<close> or \<open>json.load\<close> raises, or the loop over a value
  that is no array raises or finds nothing), or an array of entries.
\<close>

datatype case_file = Unreadable | CaseList "case_entry list"

type_synonym file_system = "string \<Rightarrow> case_file option"

text \<open>\<open>case.get(key, '').lower()\<close>\<close>

definition get_lower :: "case_entry \<Rightarrow> string \<Rightarrow> py_error + string" where
  "get_lower c key =
     (case c of
        NotACase \<Rightarrow> Inl AttributeError
      | Case obj \<Rightarrow>
          (case map_of obj key of
             None \<Rightarrow> Inr (lower_str '''')
           | Some (JStr s) \<Rightarrow> Inr (lower_str s)
           | Some JOther \<Rightarrow> Inl AttributeError))"

text \<open>
  The body of the loop: whether the case is appended. The three fields are read first, in
  the order of the source, then compared. The last branch is the conditional expression
  \<open>(legacy_jurisdiction == state_key.lower()) if state_key else False\<close>.
\<close>

definition case_selected :: "case_entry \<Rightarrow> string \<Rightarrow> string option \<Rightarrow> py_error + bool" where
  "case_selected c country_key state_key =
     (case get_lower c ''country'' of
        Inl e \<Rightarrow> Inl e
      | Inr case_country \<Rightarrow>
     (case get_lower c ''state_province'' of
        Inl e \<Rightarrow> Inl e
      | Inr case_state \<Rightarrow>
     (case get_lower c ''jurisdiction'' of
        Inl e \<Rightarrow> Inl e
      | Inr legacy_jurisdiction \<Rightarrow>
          Inr (if case_country = lower_str country_key
               then (if truthy state_key then case_state = lower_str (the state_key) else True)
               else (if truthy state_key then legacy_jurisdiction = lower_str (the state_key)
                     else False)))))"

fun filter_cases :: "case_entry list \<Rightarrow> string \<Rightarrow> string option \<Rightarrow> py_error + case_entry list" where
  "filter_cases [] country_key state_key = Inr []"
| "filter_cases (c # rest) country_key state_key =
     (case case_selected c country_key state_key of
        Inl e \<Rightarrow> Inl e
      | Inr selected \<Rightarrow>
          (case filter_cases rest country_key state_key of
             Inl e \<Rightarrow> Inl e
           | Inr filtered \<Rightarrow> Inr (if selected then c # filtered else filtered)))"

text \<open>The search for the file: the standard location, then the first alternative that exists.\<close>

fun first_existing :: "file_system \<Rightarrow> string list \<Rightarrow> string \<Rightarrow> string" where
  "first_existing fs [] data_file = data_file"
| "first_existing fs (alt_path # rest) data_file =
     (if fs alt_path \<noteq> None then alt_path else first_existing fs rest data_file)"

text \<open>
  \<open>load_cases_by_jurisdiction\<close>, with the file system as an argument. Every exception
  raised inside is caught by \<open>except Exception\<close> and gives the empty list; the log lines are
  not modelled.
\<close>

definition load_cases_by_jurisdiction ::
  "file_system \<Rightarrow> string \<Rightarrow> string option \<Rightarrow> case_entry list" where
  "load_cases_by_jurisdiction fs country_key state_key =
     (let data_file = ''data/client_cases.json'';
          data_file = (if fs data_file = None
                       then first_existing fs [''../data/client_cases.json'', ''client_cases.json'']
                              data_file
                       else data_file)
      in case fs data_file of
           None \<Rightarrow> []
         | Some Unreadable \<Rightarrow> []
         | Some (CaseList all_cases) \<Rightarrow>
             (case filter_cases all_cases country_key state_key of
                Inl e \<Rightarrow> []
              | Inr filtered_cases \<Rightarrow> filtered_cases))"

text \<open>
  The two ways of matching as the specification words them, for a case whose fields are
  strings: the modern fields, and the legacy field.
\<close>

definition field_lower :: "case_entry \<Rightarrow> string \<Rightarrow> string" where
  "field_lower c key = (case get_lower c key of Inr s \<Rightarrow> s | Inl e \<Rightarrow> [])"

definition modern_match :: "case_entry \<Rightarrow> string \<Rightarrow> string option \<Rightarrow> bool" where
  "modern_match c country_key state_key \<longleftrightarrow>
     field_lower c ''country'' = lower_str country_key
     \<and> (if truthy state_key then field_lower c ''state_province'' = lower_str (the state_key)
        else True)"

definition legacy_match :: "case_entry \<Rightarrow> string option \<Rightarrow> bool" where
  "legacy_match c state_key \<longleftrightarrow>
     truthy state_key \<and> field_lower c ''jurisdiction'' = lower_str (the state_key)"

definition string_fields :: "case_entry \<Rightarrow> bool" where
  "string_fields c \<longleftrightarrow>
     (case c of
        NotACase \<Rightarrow> False
      | Case obj \<Rightarrow>
          list_all (\<lambda>key. map_of obj key \<noteq> Some JOther)
            [''country'', ''state_province'', ''jurisdiction''])"

section \<open>Notions used in the statements\<close>

text \<open>The keys of the area-code map of a country profile.\<close>

definition area_code_keys :: "CountryPhoneInfo \<Rightarrow> string set" where
  "area_code_keys country_info =
     (case ph_area_codes country_info of None \<Rightarrow> {} | Some d \<Rightarrow> fst ` set d)"

text \<open>
  A country profile whose area-code map has a two-digit key that is a prefix of a
  three-digit key, as the specification asks for to test the tie-break.
\<close>

definition area_code_fixture :: CountryPhoneInfo where
  "area_code_fixture = \<lparr>
     ph_country_code = ''XX'', ph_calling_code = ''+999'', ph_country_name = ''Fixture'',
     ph_national_prefix = ''0'', ph_international_prefix = ''00'', ph_mobile_prefixes = [],
     ph_area_codes = Some [(''303'', ''three digits''), (''30'', ''two digits'')] \<rparr>"

text \<open>
  The tests of the two table scans of the country resolution: the calling code of an entry
  is a prefix of what follows the first character of the cleaned number, and the ISO code
  of an entry is the hint in upper case.
\<close>

definition calling_code_matches :: "string \<Rightarrow> string \<times> CountryPhoneInfo \<Rightarrow> bool" where
  "calling_code_matches cleaned entry \<longleftrightarrow>
     prefix (remove_plus (ph_calling_code (snd entry))) (drop 1 cleaned)"

definition iso_code_matches :: "string \<Rightarrow> string \<times> CountryPhoneInfo \<Rightarrow> bool" where
  "iso_code_matches hint entry \<longleftrightarrow> ph_country_code (snd entry) = upper_str hint"

text \<open>The entry the country resolution of \<open>parse_phone_number\<close> selects.\<close>

definition resolved_entry :: "string \<Rightarrow> string option \<Rightarrow> string \<times> CountryPhoneInfo" where
  "resolved_entry raw hint =
     (let cleaned = clean_phone_number raw
      in case (if prefix ''+'' cleaned
               then find (calling_code_matches cleaned) INTERNATIONAL_PHONE_DATABASE else None) of
           Some entry \<Rightarrow> entry
         | None \<Rightarrow>
             (case (case hint of None \<Rightarrow> None
                    | Some h \<Rightarrow> find (iso_code_matches h) INTERNATIONAL_PHONE_DATABASE) of
                Some entry \<Rightarrow> entry
              | None \<Rightarrow> (''united_states'', united_states_phone)))"

text \<open>The paths \<open>load_cases_by_jurisdiction\<close> looks at, in the order it looks at them.\<close>

definition case_file_paths :: "string list" where
  "case_file_paths = [''data/client_cases.json'', ''../data/client_cases.json'', ''client_cases.json'']"

text \<open>
  Case files for the examples: one whose only case has the country of the query and the
  legacy field but no \<open>state_province\<close>, and one with cases of every kind at the last of
  the three paths.
\<close>

definition migrated_case :: case_entry where
  "migrated_case = Case [(''case_id'', JStr ''C-1''), (''country'', JStr ''united_states''),
                         (''jurisdiction'', JStr ''colorado'')]"

definition migrated_fs :: file_system where
  "migrated_fs path =
     (if path = ''data/client_cases.json'' then Some (CaseList [migrated_case]) else None)"

definition example_cases :: "case_entry list" where
  "example_cases =
     [Case [(''case_id'', JStr ''C-2''), (''country'', JStr ''United_States''),
            (''state_province'', JStr ''Colorado'')],
      Case [(''case_id'', JStr ''C-3''), (''jurisdiction'', JStr ''colorado'')],
      Case [(''case_id'', JStr ''C-4''), (''country'', JStr ''united_states''),
            (''state_province'', JStr ''california'')],
      Case [(''case_id'', JStr ''C-5''), (''jurisdiction'', JStr ''texas'')],
      Case [(''case_id'', JOther), (''country'', JStr ''canada''),
            (''state_province'', JStr ''ontario'')]]"

definition example_fs :: file_system where
  "example_fs path =
     (if path = ''client_cases.json'' then Some (CaseList example_cases) else None)"

definition empty_fs :: file_system where
  "empty_fs path = None"

text \<open>A case file in which the country of the first case is \<open>null\<close>.\<close>

definition null_country_cases :: "case_entry list" where
  "null_country_cases =
     [Case [(''case_id'', JStr ''C-6''), (''country'', JOther)],
      Case [(''case_id'', JStr ''C-7''), (''jurisdiction'', JStr ''colorado'')]]"

definition null_country_fs :: file_system where
  "null_country_fs path =
     (if path = ''../data/client_cases.json'' then Some (CaseList null_country_cases) else None)"

section \<open>The country resolution\<close>

lemma detect_country_loop_find:
  "detect_country_loop db c = map_option fst (find (calling_code_matches c) db)"
  by (induction db) (auto simp: calling_code_matches_def Let_def)

lemma country_key_loop_find:
  "country_key_loop db h = map_option fst (find (iso_code_matches h) db)"
  by (induction db) (auto simp: iso_code_matches_def)

lemma find_in_set: "find P xs = Some x \<Longrightarrow> x \<in> set xs"
  by (induction xs) (auto split: if_splits)

lemma phone_db_keys:
  "map fst INTERNATIONAL_PHONE_DATABASE =
     [''united_states'', ''canada'', ''australia'', ''united_kingdom'', ''germany'', ''france'',
      ''brazil'', ''india'', ''japan'', ''mexico'']"
  by (simp add: INTERNATIONAL_PHONE_DATABASE_def)

lemma phone_db_distinct: "distinct (map fst INTERNATIONAL_PHONE_DATABASE)"
  unfolding phone_db_keys by simp

lemma phone_db_key_nonempty: "(k, i) \<in> set INTERNATIONAL_PHONE_DATABASE \<Longrightarrow> k \<noteq> []"
proof -
  assume "(k, i) \<in> set INTERNATIONAL_PHONE_DATABASE"
  then have "k \<in> set (map fst INTERNATIONAL_PHONE_DATABASE)" by force
  then show ?thesis unfolding phone_db_keys by auto
qed

lemma phone_db_lookup:
  "(k, i) \<in> set INTERNATIONAL_PHONE_DATABASE \<Longrightarrow> map_of INTERNATIONAL_PHONE_DATABASE k = Some i"
  using phone_db_distinct by (rule map_of_is_SomeI)

lemma phone_db_us: "(''united_states'', united_states_phone) \<in> set INTERNATIONAL_PHONE_DATABASE"
  by (simp add: INTERNATIONAL_PHONE_DATABASE_def)

lemma empty_hint_no_country: "find (iso_code_matches []) INTERNATIONAL_PHONE_DATABASE = None"
  by code_simp

lemma resolved_entry_in_db: "resolved_entry raw hint \<in> set INTERNATIONAL_PHONE_DATABASE"
  by (auto simp: resolved_entry_def Let_def phone_db_us dest: find_in_set split: option.splits)

lemma detected_country_resolved: "detected_country raw hint = fst (resolved_entry raw hint)"
proof -
  let ?c = "clean_phone_number raw"
  show ?thesis
  proof (cases "prefix ''+'' ?c \<and> find (calling_code_matches ?c) INTERNATIONAL_PHONE_DATABASE \<noteq> None")
    case True
    then obtain k i where f: "find (calling_code_matches ?c) INTERNATIONAL_PHONE_DATABASE = Some (k, i)"
      by auto
    from find_in_set [OF f] have "k \<noteq> []" by (rule phone_db_key_nonempty)
    with True f show ?thesis
      by (simp add: detected_country_def resolved_entry_def Let_def detect_country_from_number_def
          detect_country_loop_find)
  next
    case False
    then have r: "(if prefix ''+'' ?c
               then find (calling_code_matches ?c) INTERNATIONAL_PHONE_DATABASE else None) = None"
      by (cases "find (calling_code_matches ?c) INTERNATIONAL_PHONE_DATABASE") auto
    then have d: "detect_country_from_number ?c = None"
      by (auto simp: detect_country_from_number_def detect_country_loop_find split: if_splits)
    show ?thesis
    proof (cases hint)
      case None
      then show ?thesis
        by (simp add: detected_country_def resolved_entry_def Let_def d r)
    next
      case (Some h)
      show ?thesis
      proof (cases "find (iso_code_matches h) INTERNATIONAL_PHONE_DATABASE")
        case None
        then show ?thesis using Some
          by (simp add: detected_country_def resolved_entry_def Let_def d r
              get_country_key_from_code_def country_key_loop_find)
      next
        case (Some e)
        obtain k i where e: "e = (k, i)" by (cases e)
        have "(k, i) \<in> set INTERNATIONAL_PHONE_DATABASE"
          using Some e by (simp add: find_in_set)
        then have "k \<noteq> []" by (rule phone_db_key_nonempty)
        moreover have "h \<noteq> []" using Some empty_hint_no_country by auto
        ultimately show ?thesis using Some e \<open>hint = Some h\<close>
          by (simp add: detected_country_def resolved_entry_def Let_def d r
              get_country_key_from_code_def country_key_loop_find)
      qed
    qed
  qed
qed

lemma parse_phone_number_resolved:
  "parse_phone_number raw hint =
     Inr (parse_for_country (clean_phone_number raw) (fst (resolved_entry raw hint))
            (snd (resolved_entry raw hint)))"
proof -
  obtain k i where e: "resolved_entry raw hint = (k, i)" by (cases "resolved_entry raw hint")
  then have "(k, i) \<in> set INTERNATIONAL_PHONE_DATABASE" using resolved_entry_in_db [of raw hint] by simp
  then have "map_of INTERNATIONAL_PHONE_DATABASE k = Some i" by (rule phone_db_lookup)
  then show ?thesis
    by (simp add: parse_phone_number_def Let_def detected_country_resolved e)
qed

lemma plus_one_is_united_states:
  assumes "prefix ''+1'' c"
  shows "find (calling_code_matches c) INTERNATIONAL_PHONE_DATABASE
           = Some (''united_states'', united_states_phone)"
proof -
  from assms obtain rest where "c = ''+1'' @ rest" by (auto simp: prefix_def)
  then show ?thesis
    by (simp add: INTERNATIONAL_PHONE_DATABASE_def calling_code_matches_def
        united_states_phone_def remove_plus_def)
qed

lemma resolved_by_calling_code:
  assumes "prefix ''+'' (clean_phone_number raw)"
    and "find (calling_code_matches (clean_phone_number raw)) INTERNATIONAL_PHONE_DATABASE = Some e"
  shows "resolved_entry raw hint = e"
  using assms by (simp add: resolved_entry_def Let_def)

lemma resolved_by_hint:
  assumes "\<not> (prefix ''+'' (clean_phone_number raw)
              \<and> find (calling_code_matches (clean_phone_number raw)) INTERNATIONAL_PHONE_DATABASE \<noteq> None)"
    and "find (iso_code_matches h) INTERNATIONAL_PHONE_DATABASE = Some e"
  shows "resolved_entry raw (Some h) = e"
  using assms
  by (cases "find (calling_code_matches (clean_phone_number raw)) INTERNATIONAL_PHONE_DATABASE")
    (auto simp: resolved_entry_def Let_def)

lemma resolved_by_default:
  assumes "\<not> (prefix ''+'' (clean_phone_number raw)
              \<and> find (calling_code_matches (clean_phone_number raw)) INTERNATIONAL_PHONE_DATABASE \<noteq> None)"
    and "hint = None \<or> (\<exists>h. hint = Some h \<and> find (iso_code_matches h) INTERNATIONAL_PHONE_DATABASE = None)"
  shows "resolved_entry raw hint = (''united_states'', united_states_phone)"
  using assms
  by (cases "find (calling_code_matches (clean_phone_number raw)) INTERNATIONAL_PHONE_DATABASE")
    (auto simp: resolved_entry_def Let_def)

lemma resolved_parse:
  assumes "resolved_entry raw hint = (k, i)"
  shows "detected_country raw hint = k
         \<and> parse_phone_number raw hint = Inr (parse_for_country (clean_phone_number raw) k i)"
  using assms by (simp add: detected_country_resolved parse_phone_number_resolved)

lemma find_moscow:
  "prefix ''+'' (clean_phone_number ''+7 495 1234567'')
   \<and> find (calling_code_matches (clean_phone_number ''+7 495 1234567''))
        INTERNATIONAL_PHONE_DATABASE = None"
  by code_simp

lemma find_hint_gb:
  "find (iso_code_matches ''GB'') INTERNATIONAL_PHONE_DATABASE
     = Some (''united_kingdom'', united_kingdom_phone)"
  by code_simp

lemma find_london:
  "prefix ''+'' (clean_phone_number ''+44 20 7946 0958'')
   \<and> find (calling_code_matches (clean_phone_number ''+44 20 7946 0958''))
        INTERNATIONAL_PHONE_DATABASE = Some (''united_kingdom'', united_kingdom_phone)"
  by code_simp

lemma clean_toronto:
  "clean_phone_number ''+1-416-555-0123'' = ''+14165550123''
   \<and> clean_phone_number ''(303) 555-0123'' = ''3035550123''"
  by code_simp

text \<open>
  Claim C3, as stated, fails on the code: when the cleaned number starts with \<open>+\<close> but no
  calling code of the table is a prefix of its digits, no table entry is there to resolve
  to, and the hint is consulted after all. The number \<open>+7 495 1234567\<close> is parsed for the
  United Kingdom with the hint \<open>GB\<close> and for the United States without a hint.
\<close>

theorem country_resolution_counterexample:
  "prefix ''+'' (clean_phone_number ''+7 495 1234567'')
   \<and> find (calling_code_matches (clean_phone_number ''+7 495 1234567''))
        INTERNATIONAL_PHONE_DATABASE = None
   \<and> detected_country ''+7 495 1234567'' (Some ''GB'') = ''united_kingdom''
   \<and> detected_country ''+7 495 1234567'' None = ''united_states''
   \<and> map_sum id country_code (parse_phone_number ''+7 495 1234567'' (Some ''GB'')) = Inr ''GB''
   \<and> map_sum id country_code (parse_phone_number ''+7 495 1234567'' None) = Inr ''US''"
  by code_simp

text \<open>
  Claim C3, amended. When the cleaned form starts with \<open>+\<close> and some calling code of the
  table is a prefix of the digits after it, \<open>parse_phone_number\<close> parses for the first such
  entry in table order, whatever the hint; so every \<open>+1\<close> number is parsed for the United
  States profile. In every other case (no leading \<open>+\<close>, or no calling code matches) the
  hint is used when its upper-case form is the ISO code of a table entry, and the United
  States profile otherwise.
\<close>

theorem country_resolution:
  "(prefix ''+'' (clean_phone_number raw)
      \<and> find (calling_code_matches (clean_phone_number raw)) INTERNATIONAL_PHONE_DATABASE = Some (k, i)
    \<longrightarrow> detected_country raw hint = k
        \<and> parse_phone_number raw hint = Inr (parse_for_country (clean_phone_number raw) k i))
   \<and> (prefix ''+1'' (clean_phone_number raw)
    \<longrightarrow> detected_country raw hint = ''united_states''
        \<and> parse_phone_number raw hint
            = Inr (parse_for_country (clean_phone_number raw) ''united_states'' united_states_phone))
   \<and> (\<not> (prefix ''+'' (clean_phone_number raw)
           \<and> find (calling_code_matches (clean_phone_number raw)) INTERNATIONAL_PHONE_DATABASE \<noteq> None)
      \<and> find (iso_code_matches h) INTERNATIONAL_PHONE_DATABASE = Some (k, i)
    \<longrightarrow> detected_country raw (Some h) = k
        \<and> parse_phone_number raw (Some h) = Inr (parse_for_country (clean_phone_number raw) k i))
   \<and> (\<not> (prefix ''+'' (clean_phone_number raw)
           \<and> find (calling_code_matches (clean_phone_number raw)) INTERNATIONAL_PHONE_DATABASE \<noteq> None)
      \<and> (hint = None \<or> (\<exists>h. hint = Some h
                            \<and> find (iso_code_matches h) INTERNATIONAL_PHONE_DATABASE = None))
    \<longrightarrow> detected_country raw hint = ''united_states''
        \<and> parse_phone_number raw hint
            = Inr (parse_for_country (clean_phone_number raw) ''united_states'' united_states_phone))"
proof (intro conjI impI)
  assume a: "prefix ''+'' (clean_phone_number raw)
      \<and> find (calling_code_matches (clean_phone_number raw)) INTERNATIONAL_PHONE_DATABASE = Some (k, i)"
  then have "resolved_entry raw hint = (k, i)" by (simp add: resolved_by_calling_code)
  from resolved_parse [OF this]
  show "detected_country raw hint = k"
    and "parse_phone_number raw hint = Inr (parse_for_country (clean_phone_number raw) k i)"
    by simp_all
next
  assume a: "prefix ''+1'' (clean_phone_number raw)"
  then have "prefix ''+'' (clean_phone_number raw)" by (auto simp: prefix_def)
  with plus_one_is_united_states [OF a]
  have "resolved_entry raw hint = (''united_states'', united_states_phone)"
    by (simp add: resolved_by_calling_code)
  from resolved_parse [OF this]
  show "detected_country raw hint = ''united_states''"
    and "parse_phone_number raw hint
           = Inr (parse_for_country (clean_phone_number raw) ''united_states'' united_states_phone)"
    by simp_all
next
  assume a: "\<not> (prefix ''+'' (clean_phone_number raw)
           \<and> find (calling_code_matches (clean_phone_number raw)) INTERNATIONAL_PHONE_DATABASE \<noteq> None)
      \<and> find (iso_code_matches h) INTERNATIONAL_PHONE_DATABASE = Some (k, i)"
  then have "resolved_entry raw (Some h) = (k, i)" by (simp add: resolved_by_hint)
  from resolved_parse [OF this]
  show "detected_country raw (Some h) = k"
    and "parse_phone_number raw (Some h) = Inr (parse_for_country (clean_phone_number raw) k i)"
    by simp_all
next
  assume a: "\<not> (prefix ''+'' (clean_phone_number raw)
           \<and> find (calling_code_matches (clean_phone_number raw)) INTERNATIONAL_PHONE_DATABASE \<noteq> None)
      \<and> (hint = None \<or> (\<exists>h. hint = Some h
                            \<and> find (iso_code_matches h) INTERNATIONAL_PHONE_DATABASE = None))"
  then have "resolved_entry raw hint = (''united_states'', united_states_phone)"
    by (simp add: resolved_by_default)
  from resolved_parse [OF this]
  show "detected_country raw hint = ''united_states''"
    and "parse_phone_number raw hint
           = Inr (parse_for_country (clean_phone_number raw) ''united_states'' united_states_phone)"
    by simp_all
qed

text \<open>
  The four cases at concrete inputs: a London number with the hint \<open>US\<close>, a Toronto number
  in international form with the hint \<open>CA\<close>, the Moscow number with the hint \<open>GB\<close>, and a
  number in national form without a hint.
\<close>

theorem country_resolution_witness:
  "detected_country ''+44 20 7946 0958'' (Some ''US'') = ''united_kingdom''
   \<and> detected_country ''+1-416-555-0123'' (Some ''CA'') = ''united_states''
   \<and> detected_country ''+7 495 1234567'' (Some ''GB'') = ''united_kingdom''
   \<and> detected_country ''(303) 555-0123'' None = ''united_states''"
  using
    country_resolution [of "''+44 20 7946 0958''" "''united_kingdom''" united_kingdom_phone
      "Some ''US''" "''US''"]
    country_resolution [of "''+1-416-555-0123''" "''united_states''" united_states_phone
      "Some ''CA''" "''CA''"]
    country_resolution [of "''+7 495 1234567''" "''united_kingdom''" united_kingdom_phone
      "Some ''GB''" "''GB''"]
    country_resolution [of "''(303) 555-0123''" "''united_states''" united_states_phone
      None "''''"]
  by (simp add: find_london find_moscow find_hint_gb clean_toronto)

section \<open>Area-code extraction\<close>

lemma map_of_keys: "map_of d k \<noteq> None \<longleftrightarrow> k \<in> fst ` set d"
  by (simp add: map_of_eq_None_iff del: not_None_eq)

lemma area_code_loop_Cons:
  "area_code_loop (len # rest) n d =
     (if len \<le> length n \<and> take len n \<in> fst ` set d then Some (take len n)
      else area_code_loop rest n d)"
  by (simp only: area_code_loop.simps map_of_keys)

lemma area_code_loop_keys:
  "area_code_loop [2, 3, 4, 5] n d =
     (if 2 \<le> length n \<and> take 2 n \<in> fst ` set d then Some (take 2 n)
      else if 3 \<le> length n \<and> take 3 n \<in> fst ` set d then Some (take 3 n)
      else if 4 \<le> length n \<and> take 4 n \<in> fst ` set d then Some (take 4 n)
      else if 5 \<le> length n \<and> take 5 n \<in> fst ` set d then Some (take 5 n)
      else None)"
  by (simp only: area_code_loop_Cons area_code_loop.simps(1))

text \<open>
  Claim C5. For every country profile and every national number, \<open>_extract_area_code\<close>
  returns an area code \<open>a\<close> exactly when \<open>a\<close> is the prefix of some length among 2, 3, 4, 5
  that is a key of the country's area-code map and no shorter prefix of those lengths
  is a key (the shortest match wins); it returns no area code exactly when no prefix of
  those lengths is a key.
\<close>

theorem extract_area_code_shortest_match:
  "(extract_area_code n country_info = Some a \<longleftrightarrow>
      (\<exists>len \<in> {2, 3, 4, 5}. len \<le> length n \<and> a = take len n \<and> a \<in> area_code_keys country_info
         \<and> (\<forall>shorter \<in> {2, 3, 4, 5}. shorter < len \<longrightarrow>
               \<not> (shorter \<le> length n \<and> take shorter n \<in> area_code_keys country_info))))
   \<and> (extract_area_code n country_info = None \<longleftrightarrow>
      (\<forall>len \<in> {2, 3, 4, 5}. \<not> (len \<le> length n \<and> take len n \<in> area_code_keys country_info)))"
proof -
  define d where "d = (case ph_area_codes country_info of None \<Rightarrow> [] | Some d \<Rightarrow> d)"
  have keys: "area_code_keys country_info = fst ` set d"
    by (simp add: area_code_keys_def d_def split: option.splits)
  have ex: "extract_area_code n country_info = area_code_loop [2, 3, 4, 5] n d"
    by (simp only: extract_area_code_def d_def Let_def)
  show ?thesis
    unfolding ex keys area_code_loop_keys
    by (auto simp del: area_code_loop.simps)
qed

text \<open>
  On the fixture both \<open>30\<close> and \<open>303\<close> are keys and prefixes of the number: the two-digit
  key is returned. A number with no key among its prefixes has no area code.
\<close>

theorem extract_area_code_shortest_match_witness:
  "extract_area_code ''3035550123'' area_code_fixture = Some ''30''
   \<and> ''30'' \<in> area_code_keys area_code_fixture
   \<and> ''303'' \<in> area_code_keys area_code_fixture
   \<and> extract_area_code ''5550123'' area_code_fixture = None"
  using extract_area_code_shortest_match [of "''3035550123''" area_code_fixture "''30''"]
    extract_area_code_shortest_match [of "''5550123''" area_code_fixture "''55''"]
  by (simp add: area_code_keys_def area_code_fixture_def)

section \<open>The area code of a parsed number\<close>

lemma extract_area_code_Some:
  assumes "extract_area_code n country_info = Some a"
  shows "prefix a n \<and> 2 \<le> length a \<and> length a \<le> 5 \<and> a \<in> area_code_keys country_info"
proof -
  define d where "d = (case ph_area_codes country_info of None \<Rightarrow> [] | Some d \<Rightarrow> d)"
  have keys: "area_code_keys country_info = fst ` set d"
    by (simp add: area_code_keys_def d_def split: option.splits)
  have "area_code_loop [2, 3, 4, 5] n d = Some a"
    using assms by (simp only: extract_area_code_def d_def Let_def)
  then obtain len where "len \<in> {2, 3, 4, 5}" "len \<le> length n" "a = take len n" "a \<in> fst ` set d"
    unfolding area_code_loop_keys by (auto split: if_splits)
  then show ?thesis
    unfolding keys by (auto simp: take_is_prefix)
qed

lemma parse_for_country_area_code:
  "area_code (parse_for_country c k i) = extract_area_code (national_number (parse_for_country c k i)) i"
  by (simp add: parse_for_country_def Let_def)

lemma resolved_lookup:
  "map_of INTERNATIONAL_PHONE_DATABASE (detected_country raw hint) = Some (snd (resolved_entry raw hint))"
proof -
  obtain k i where e: "resolved_entry raw hint = (k, i)" by (cases "resolved_entry raw hint")
  then have "(k, i) \<in> set INTERNATIONAL_PHONE_DATABASE" using resolved_entry_in_db [of raw hint] by simp
  then have "map_of INTERNATIONAL_PHONE_DATABASE k = Some i" by (rule phone_db_lookup)
  then show ?thesis by (simp add: detected_country_resolved e)
qed

lemma parse_denver:
  "parse_phone_number ''+1 (303) 555-0123'' None =
     Inr \<lparr>raw_number = ''+13035550123'', formatted_number = ''(303) 555-0123'',
        international_format = ''+1 (303) 555-0123'', country_code = ''US'',
        national_number = ''3035550123'', area_code = Some ''303'',
        is_valid = True, phone_type = ''landline'',
        country_name = ''United States'', timezone = ''America/Denver''\<rparr>"
  by code_simp

lemma detected_denver: "detected_country ''+1 (303) 555-0123'' None = ''united_states''"
  by code_simp

lemma lookup_united_states:
  "map_of INTERNATIONAL_PHONE_DATABASE ''united_states'' = Some united_states_phone"
  by (simp add: INTERNATIONAL_PHONE_DATABASE_def)

text \<open>
  Claim C9. \<open>parse_phone_number\<close> always returns a result, and when the result has an area
  code, the area code is a prefix of the national number of the result, has between 2 and
  5 characters, and is a key of the area-code map of the resolved country's profile.
\<close>

theorem parsed_area_code_invariant:
  "\<exists>p country_info.
      parse_phone_number raw hint = Inr p
      \<and> map_of INTERNATIONAL_PHONE_DATABASE (detected_country raw hint) = Some country_info
      \<and> (\<forall>a. area_code p = Some a \<longrightarrow>
             prefix a (national_number p) \<and> 2 \<le> length a \<and> length a \<le> 5
             \<and> a \<in> area_code_keys country_info)"
proof -
  let ?i = "snd (resolved_entry raw hint)"
  let ?p = "parse_for_country (clean_phone_number raw) (fst (resolved_entry raw hint)) ?i"
  have "\<forall>a. area_code ?p = Some a \<longrightarrow>
             prefix a (national_number ?p) \<and> 2 \<le> length a \<and> length a \<le> 5
             \<and> a \<in> area_code_keys ?i"
    using extract_area_code_Some [of "national_number ?p" ?i]
    by (simp only: parse_for_country_area_code) blast
  with parse_phone_number_resolved [of raw hint] resolved_lookup [of raw hint]
  show ?thesis by blast
qed

theorem parsed_area_code_invariant_witness:
  "\<exists>p. parse_phone_number ''+1 (303) 555-0123'' None = Inr p
      \<and> area_code p = Some ''303''
      \<and> prefix ''303'' (national_number p)
      \<and> ''303'' \<in> area_code_keys united_states_phone"
  using parsed_area_code_invariant [of "''+1 (303) 555-0123''" None]
  by (auto simp: parse_denver detected_denver lookup_united_states)

section \<open>The timezone of a parsed number\<close>

lemma parse_for_country_timezone:
  "timezone (parse_for_country c k i) = get_timezone_for_area_code (area_code (parse_for_country c k i)) k"
  by (simp add: parse_for_country_def Let_def)

lemma detected_country_in_keys:
  "detected_country raw hint \<in> set (map fst INTERNATIONAL_PHONE_DATABASE)"
  using resolved_entry_in_db [of raw hint] by (force simp: detected_country_resolved)

lemma timezone_override:
  assumes "map_of timezone_mapping k = Some by_area" and "map_of by_area a = Some tz"
  shows "get_timezone_for_area_code (Some a) k = tz"
  using assms by (simp add: get_timezone_for_area_code_def)

lemma timezone_default:
  assumes "\<not> (\<exists>by_area a tz. map_of timezone_mapping k = Some by_area \<and> area = Some a
                 \<and> map_of by_area a = Some tz)"
  shows "get_timezone_for_area_code area k
           = (case map_of default_timezones k of Some tz \<Rightarrow> tz | None \<Rightarrow> ''UTC'')"
  using assms by (auto simp: get_timezone_for_area_code_def split: option.splits)

lemma override_never_utc:
  assumes "map_of timezone_mapping k = Some by_area" and "map_of by_area a = Some tz"
  shows "tz \<noteq> ''UTC''"
proof -
  from assms(1) have "(k, by_area) \<in> set timezone_mapping" by (rule map_of_SomeD)
  moreover from assms(2) have "(a, tz) \<in> set by_area" by (rule map_of_SomeD)
  ultimately show ?thesis by (auto simp: timezone_mapping_def)
qed

lemma default_never_utc:
  assumes "map_of default_timezones k = Some tz"
  shows "tz \<noteq> ''UTC''"
proof -
  from assms have "(k, tz) \<in> set default_timezones" by (rule map_of_SomeD)
  then show ?thesis by (auto simp: default_timezones_def)
qed

lemma timezone_utc_iff:
  "get_timezone_for_area_code area k = ''UTC'' \<longleftrightarrow> map_of default_timezones k = None"
proof (cases "\<exists>by_area a tz. map_of timezone_mapping k = Some by_area \<and> area = Some a
                 \<and> map_of by_area a = Some tz")
  case True
  then obtain by_area a tz where o: "map_of timezone_mapping k = Some by_area" "area = Some a"
    "map_of by_area a = Some tz" by blast
  then have "(k, by_area) \<in> set timezone_mapping" by (simp add: map_of_SomeD)
  then have "k \<in> {''united_states'', ''canada'', ''australia''}"
    by (auto simp: timezone_mapping_def)
  then have "map_of default_timezones k \<noteq> None" by (auto simp: default_timezones_def)
  moreover have "get_timezone_for_area_code area k \<noteq> ''UTC''"
    using timezone_override [OF o(1) o(3)] override_never_utc [OF o(1) o(3)] o(2) by simp
  ultimately show ?thesis by simp
next
  case False
  from timezone_default [OF this] show ?thesis
    by (auto split: option.splits dest: default_never_utc)
qed

lemma no_default_timezone:
  assumes "k \<in> set (map fst INTERNATIONAL_PHONE_DATABASE)"
  shows "map_of default_timezones k = None \<longleftrightarrow> k \<in> {''brazil'', ''india'', ''japan'', ''mexico''}"
  using assms unfolding phone_db_keys by (auto simp: default_timezones_def)

lemma parse_sao_paulo:
  "parse_phone_number ''+55 11 91234-5678'' None =
     Inr \<lparr>raw_number = ''+5511912345678'', formatted_number = ''11912345678'',
        international_format = ''+55 11912345678'', country_code = ''BR'',
        national_number = ''11912345678'', area_code = Some ''11'',
        is_valid = True, phone_type = ''landline'',
        country_name = ''Brazil'', timezone = ''UTC''\<rparr>"
  by code_simp

lemma detected_sao_paulo: "detected_country ''+55 11 91234-5678'' None = ''brazil''"
  by code_simp

lemma parse_berlin:
  "parse_phone_number ''+49 30 12345678'' None =
     Inr \<lparr>raw_number = ''+493012345678'', formatted_number = ''301 2345678'',
        international_format = ''+49 301 2345678'', country_code = ''DE'',
        national_number = ''3012345678'', area_code = None,
        is_valid = True, phone_type = ''landline'',
        country_name = ''Germany'', timezone = ''Europe/Berlin''\<rparr>"
  by code_simp

lemma detected_berlin: "detected_country ''+49 30 12345678'' None = ''germany''"
  by code_simp

lemma denver_override:
  "map_of timezone_mapping ''united_states'' =
     Some [(''303'', ''America/Denver''),
           (''720'', ''America/Denver''),
           (''719'', ''America/Denver''),
           (''970'', ''America/Denver''),
           (''213'', ''America/Los_Angeles''),
           (''415'', ''America/Los_Angeles''),
           (''212'', ''America/New_York'')]"
  by (simp add: timezone_mapping_def)

lemma germany_no_override: "map_of timezone_mapping ''germany'' = None"
  by (simp add: timezone_mapping_def)

lemma germany_default: "map_of default_timezones ''germany'' = Some ''Europe/Berlin''"
  by (simp add: default_timezones_def)

text \<open>
  Claim C4, as stated, fails on the code: \<open>UTC\<close> is also the timezone of numbers of
  recognized countries. Brazil is an entry of the phone table, the number below is parsed
  for it and is valid, and its timezone is \<open>UTC\<close>, because the table of default timezones
  has no entry for Brazil.
\<close>

theorem timezone_utc_counterexample:
  "parse_phone_number ''+55 11 91234-5678'' None =
     Inr \<lparr>raw_number = ''+5511912345678'', formatted_number = ''11912345678'',
        international_format = ''+55 11912345678'', country_code = ''BR'',
        national_number = ''11912345678'', area_code = Some ''11'',
        is_valid = True, phone_type = ''landline'',
        country_name = ''Brazil'', timezone = ''UTC''\<rparr>
   \<and> map_of INTERNATIONAL_PHONE_DATABASE ''brazil'' = Some brazil_phone
   \<and> map_of default_timezones ''brazil'' = None"
  by code_simp

text \<open>
  Claim C4, amended. For every parsed number the timezone is the entry of the override
  table when the resolved country and the area code are present there; otherwise it is
  the default timezone of the country when the table of defaults has one, and \<open>UTC\<close> when
  it has none. \<open>UTC\<close> is the result exactly for the countries without a default timezone,
  which among the countries of the phone table are Brazil, India, Japan and Mexico.
\<close>

theorem timezone_resolution:
  "\<exists>p. parse_phone_number raw hint = Inr p
      \<and> (\<forall>by_area a tz.
            map_of timezone_mapping (detected_country raw hint) = Some by_area
            \<and> area_code p = Some a \<and> map_of by_area a = Some tz
            \<longrightarrow> timezone p = tz)
      \<and> (\<not> (\<exists>by_area a tz.
               map_of timezone_mapping (detected_country raw hint) = Some by_area
               \<and> area_code p = Some a \<and> map_of by_area a = Some tz)
          \<longrightarrow> timezone p = (case map_of default_timezones (detected_country raw hint) of
                             Some tz \<Rightarrow> tz
                           | None \<Rightarrow> ''UTC''))
      \<and> (timezone p = ''UTC'' \<longleftrightarrow> map_of default_timezones (detected_country raw hint) = None)
      \<and> (timezone p = ''UTC'' \<longleftrightarrow>
            detected_country raw hint \<in> {''brazil'', ''india'', ''japan'', ''mexico''})"
proof -
  let ?k = "detected_country raw hint"
  let ?p = "parse_for_country (clean_phone_number raw) ?k (snd (resolved_entry raw hint))"
  have p: "parse_phone_number raw hint = Inr ?p"
    by (simp add: parse_phone_number_resolved detected_country_resolved)
  have tz: "timezone ?p = get_timezone_for_area_code (area_code ?p) ?k"
    by (rule parse_for_country_timezone)
  show ?thesis
  proof (rule exI [of _ ?p], intro conjI)
    show "parse_phone_number raw hint = Inr ?p" by (rule p)
  next
    show "\<forall>by_area a tz. map_of timezone_mapping ?k = Some by_area
            \<and> area_code ?p = Some a \<and> map_of by_area a = Some tz \<longrightarrow> timezone ?p = tz"
    proof (intro allI impI, elim conjE)
      fix by_area a tz
      assume "map_of timezone_mapping ?k = Some by_area" "area_code ?p = Some a"
        "map_of by_area a = Some tz"
      then show "timezone ?p = tz"
        by (simp only: tz timezone_override)
    qed
  next
    show "\<not> (\<exists>by_area a tz. map_of timezone_mapping ?k = Some by_area
               \<and> area_code ?p = Some a \<and> map_of by_area a = Some tz)
          \<longrightarrow> timezone ?p = (case map_of default_timezones ?k of Some tz \<Rightarrow> tz | None \<Rightarrow> ''UTC'')"
    proof
      assume "\<not> (\<exists>by_area a tz. map_of timezone_mapping ?k = Some by_area
               \<and> area_code ?p = Some a \<and> map_of by_area a = Some tz)"
      from timezone_default [OF this] show "timezone ?p
        = (case map_of default_timezones ?k of Some tz \<Rightarrow> tz | None \<Rightarrow> ''UTC'')"
        by (simp only: tz)
    qed
  next
    show 3: "timezone ?p = ''UTC'' \<longleftrightarrow> map_of default_timezones ?k = None"
      unfolding tz by (rule timezone_utc_iff)
    show "timezone ?p = ''UTC'' \<longleftrightarrow> ?k \<in> {''brazil'', ''india'', ''japan'', ''mexico''}"
      using no_default_timezone [OF detected_country_in_keys, of raw hint]
      by (simp only: 3)
  qed
qed

text \<open>
  A Denver number takes its timezone from the override table, a Berlin number the default
  of Germany, and the number from Sao Paulo has the timezone \<open>UTC\<close>.
\<close>

theorem timezone_resolution_witness:
  "(\<exists>p. parse_phone_number ''+1 (303) 555-0123'' None = Inr p
        \<and> area_code p = Some ''303'' \<and> timezone p = ''America/Denver'')
   \<and> (\<exists>p. parse_phone_number ''+49 30 12345678'' None = Inr p
        \<and> area_code p = None \<and> timezone p = ''Europe/Berlin'')
   \<and> (\<exists>p. parse_phone_number ''+55 11 91234-5678'' None = Inr p
        \<and> timezone p = ''UTC'')"
  using timezone_resolution [of "''+1 (303) 555-0123''" None]
    timezone_resolution [of "''+49 30 12345678''" None]
    timezone_resolution [of "''+55 11 91234-5678''" None]
  by (simp add: parse_denver detected_denver denver_override parse_berlin detected_berlin
      germany_no_override germany_default parse_sao_paulo detected_sao_paulo)

section \<open>Dialing instructions\<close>

lemma find_country_data_None:
  "find_country_data db code = None \<longleftrightarrow> code \<notin> ph_country_code ` snd ` set db"
proof (induction db)
  case Nil
  show ?case by simp
next
  case (Cons e db)
  obtain k i where e: "e = (k, i)" by (cases e)
  show ?case
  proof (cases "ph_country_code i = code")
    case True
    then show ?thesis by (simp add: e)
  next
    case False
    with Cons show ?thesis by (simp add: e)
  qed
qed

lemma phone_db_entries_by_code:
  "list_all (\<lambda>(k, i). find_country_data INTERNATIONAL_PHONE_DATABASE (ph_country_code i) = Some i
                        \<and> remove_plus (ph_calling_code i) \<noteq> [])
     INTERNATIONAL_PHONE_DATABASE"
  by code_simp

lemma phone_db_entry_by_code:
  assumes "(k, i) \<in> set INTERNATIONAL_PHONE_DATABASE"
  shows "find_country_data INTERNATIONAL_PHONE_DATABASE (ph_country_code i) = Some i"
    and "remove_plus (ph_calling_code i) \<noteq> []"
  using assms phone_db_entries_by_code by (auto simp: list_all_iff)

lemma parse_for_country_code: "country_code (parse_for_country c k i) = ph_country_code i"
  by (simp add: parse_for_country_def Let_def)

lemma format_for_dialing_unknown:
  assumes "find_country_data INTERNATIONAL_PHONE_DATABASE calling_from = None"
  shows "format_for_dialing p calling_from = [(''error'', ''Unknown calling country: '' @ calling_from)]"
  using assms by (simp add: format_for_dialing_def)

lemma format_for_dialing_known:
  assumes "find_country_data INTERNATIONAL_PHONE_DATABASE calling_from = Some origin"
    and "find_country_data INTERNATIONAL_PHONE_DATABASE (country_code p) = Some dest"
    and "remove_plus (ph_calling_code dest) \<noteq> []"
  shows "format_for_dialing p calling_from =
     (if calling_from = country_code p
      then [(''domestic'', formatted_number p),
            (''international'', international_format p),
            (''dial_string'', national_number p)]
      else [(''international'', international_format p),
            (''dial_string'',
               ph_international_prefix origin @ remove_plus (ph_calling_code dest) @ national_number p),
            (''instructions'',
               ''Dial '' @ ph_international_prefix origin @ '' + ''
                 @ remove_plus (ph_calling_code dest) @ '' + '' @ national_number p)])"
  using assms by (simp add: format_for_dialing_def Let_def)

lemma find_origin_gb:
  "find_country_data INTERNATIONAL_PHONE_DATABASE ''GB'' = Some united_kingdom_phone
   \<and> find_country_data INTERNATIONAL_PHONE_DATABASE ''US'' = Some united_states_phone
   \<and> ''ZZ'' \<notin> ph_country_code ` snd ` set INTERNATIONAL_PHONE_DATABASE
   \<and> ph_international_prefix united_kingdom_phone = ''00''
   \<and> ph_country_code united_states_phone = ''US''
   \<and> remove_plus (ph_calling_code united_states_phone) = ''1''"
  by code_simp

text \<open>
  Claim C7. For a parsed number, \<open>format_for_dialing\<close> returns a dictionary with the key
  \<open>error\<close> exactly when the calling-from country code is not a country code of the phone
  table, and never raises. When the calling-from code is the country code of the parsed
  number the result holds the national and international renderings of the number
  unchanged, and its national number as the dial string. When the calling-from code is
  another code of the table, the dial string is the international-dialing prefix of the
  origin, the calling code of the destination without the plus sign and the national
  number, concatenated, and an instruction string comes with it.
\<close>

theorem format_for_dialing_parsed:
  "\<exists>p dest.
      parse_phone_number raw hint = Inr p
      \<and> map_of INTERNATIONAL_PHONE_DATABASE (detected_country raw hint) = Some dest
      \<and> country_code p = ph_country_code dest
      \<and> (map_of (format_for_dialing p calling_from) ''error'' \<noteq> None
           \<longleftrightarrow> calling_from \<notin> ph_country_code ` snd ` set INTERNATIONAL_PHONE_DATABASE)
      \<and> (calling_from = country_code p \<longrightarrow>
            format_for_dialing p calling_from =
              [(''domestic'', formatted_number p),
               (''international'', international_format p),
               (''dial_string'', national_number p)])
      \<and> (\<forall>origin. calling_from \<noteq> country_code p
            \<and> find_country_data INTERNATIONAL_PHONE_DATABASE calling_from = Some origin \<longrightarrow>
            format_for_dialing p calling_from =
              [(''international'', international_format p),
               (''dial_string'',
                  ph_international_prefix origin @ remove_plus (ph_calling_code dest)
                    @ national_number p),
               (''instructions'',
                  ''Dial '' @ ph_international_prefix origin @ '' + ''
                    @ remove_plus (ph_calling_code dest) @ '' + '' @ national_number p)])"
proof -
  let ?k = "detected_country raw hint"
  let ?d = "snd (resolved_entry raw hint)"
  let ?p = "parse_for_country (clean_phone_number raw) ?k ?d"
  have p: "parse_phone_number raw hint = Inr ?p"
    by (simp add: parse_phone_number_resolved detected_country_resolved)
  have "(fst (resolved_entry raw hint), ?d) \<in> set INTERNATIONAL_PHONE_DATABASE"
    using resolved_entry_in_db [of raw hint] by simp
  from phone_db_entry_by_code [OF this]
  have dest: "find_country_data INTERNATIONAL_PHONE_DATABASE (country_code ?p) = Some ?d"
    and cc: "remove_plus (ph_calling_code ?d) \<noteq> []"
    by (simp_all add: parse_for_country_code)
  show ?thesis
  proof (rule exI [of _ ?p], rule exI [of _ ?d], intro conjI)
    show "parse_phone_number raw hint = Inr ?p" by (rule p)
  next
    show "map_of INTERNATIONAL_PHONE_DATABASE ?k = Some ?d" by (rule resolved_lookup)
  next
    show "country_code ?p = ph_country_code ?d" by (rule parse_for_country_code)
  next
    show "map_of (format_for_dialing ?p calling_from) ''error'' \<noteq> None
           \<longleftrightarrow> calling_from \<notin> ph_country_code ` snd ` set INTERNATIONAL_PHONE_DATABASE"
    proof (cases "find_country_data INTERNATIONAL_PHONE_DATABASE calling_from")
      case None
      then show ?thesis
        by (simp add: format_for_dialing_unknown find_country_data_None [symmetric])
    next
      case (Some origin)
      from format_for_dialing_known [OF Some dest cc] Some show ?thesis
        by (simp add: find_country_data_None [symmetric])
    qed
  next
    show "calling_from = country_code ?p \<longrightarrow>
            format_for_dialing ?p calling_from =
              [(''domestic'', formatted_number ?p),
               (''international'', international_format ?p),
               (''dial_string'', national_number ?p)]"
    proof
      assume eq: "calling_from = country_code ?p"
      with dest have "find_country_data INTERNATIONAL_PHONE_DATABASE calling_from = Some ?d"
        by simp
      from format_for_dialing_known [OF this dest cc] eq
      show "format_for_dialing ?p calling_from =
              [(''domestic'', formatted_number ?p),
               (''international'', international_format ?p),
               (''dial_string'', national_number ?p)]"
        by simp
    qed
  next
    show "\<forall>origin. calling_from \<noteq> country_code ?p
            \<and> find_country_data INTERNATIONAL_PHONE_DATABASE calling_from = Some origin \<longrightarrow>
            format_for_dialing ?p calling_from =
              [(''international'', international_format ?p),
               (''dial_string'',
                  ph_international_prefix origin @ remove_plus (ph_calling_code ?d)
                    @ national_number ?p),
               (''instructions'',
                  ''Dial '' @ ph_international_prefix origin @ '' + ''
                    @ remove_plus (ph_calling_code ?d) @ '' + '' @ national_number ?p)]"
    proof (intro allI impI, elim conjE)
      fix origin
      assume ne: "calling_from \<noteq> country_code ?p"
        and o: "find_country_data INTERNATIONAL_PHONE_DATABASE calling_from = Some origin"
      from format_for_dialing_known [OF o dest cc] ne
      show "format_for_dialing ?p calling_from =
              [(''international'', international_format ?p),
               (''dial_string'',
                  ph_international_prefix origin @ remove_plus (ph_calling_code ?d)
                    @ national_number ?p),
               (''instructions'',
                  ''Dial '' @ ph_international_prefix origin @ '' + ''
                    @ remove_plus (ph_calling_code ?d) @ '' + '' @ national_number ?p)]"
        by simp
    qed
  qed
qed

text \<open>
  The Denver number dialled from the United States, from the United Kingdom, and from a
  country code that the table does not have.
\<close>

theorem format_for_dialing_parsed_witness:
  "\<exists>p. parse_phone_number ''+1 (303) 555-0123'' None = Inr p
      \<and> format_for_dialing p ''US'' =
           [(''domestic'', ''(303) 555-0123''),
            (''international'', ''+1 (303) 555-0123''),
            (''dial_string'', ''3035550123'')]
      \<and> format_for_dialing p ''GB'' =
           [(''international'', ''+1 (303) 555-0123''),
            (''dial_string'', ''0013035550123''),
            (''instructions'', ''Dial 00 + 1 + 3035550123'')]
      \<and> map_of (format_for_dialing p ''ZZ'') ''error'' \<noteq> None"
  using format_for_dialing_parsed [of "''+1 (303) 555-0123''" None "''US''"]
    format_for_dialing_parsed [of "''+1 (303) 555-0123''" None "''GB''"]
    format_for_dialing_parsed [of "''+1 (303) 555-0123''" None "''ZZ''"]
  by (simp add: parse_denver detected_denver lookup_united_states find_origin_gb
      find_country_data_None [symmetric] del: not_None_eq)

section \<open>Formatting and parsing again\<close>

lemma digits_filter: "list_all is_digit s \<Longrightarrow> filter is_digit s = s"
  by (simp add: list_all_iff)

lemma digits_take: "list_all is_digit s \<Longrightarrow> list_all is_digit (take k s)"
  by (auto simp: list_all_iff dest: in_set_takeD)

lemma digits_drop: "list_all is_digit s \<Longrightarrow> list_all is_digit (drop k s)"
  by (auto simp: list_all_iff dest: in_set_dropD)

lemma digits_slice: "list_all is_digit s \<Longrightarrow> list_all is_digit (slice a b s)"
  by (simp add: slice_def digits_take digits_drop)

lemma digits_first: "list_all is_digit s \<Longrightarrow> s \<noteq> [] \<Longrightarrow> is_digit (s ! 0)"
  by (cases s) simp_all

lemma separators_no_digits:
  "\<not> is_digit CHR ''(''" "\<not> is_digit CHR '')''" "\<not> is_digit CHR '' ''" "\<not> is_digit CHR ''-''"
  "\<not> is_digit CHR ''+''"
  by (simp_all add: is_digit_def)

lemma slice_drop: "a \<le> b \<Longrightarrow> slice a b s @ drop b s = drop a s"
proof -
  assume "a \<le> b"
  then have "drop b s = drop (b - a) (drop a s)" by simp
  then show ?thesis by (simp only: slice_def append_take_drop_id)
qed

lemma first_and_rest: "s \<noteq> [] \<Longrightarrow> [s ! 0] @ drop 1 s = s"
  by (cases s) simp_all

lemma digits_of_formatted:
  assumes "list_all is_digit n"
  shows "filter is_digit (apply_formatting n country_info) = n"
proof -
  note d = digits_filter [OF assms] digits_filter [OF digits_take [OF assms]]
    digits_filter [OF digits_drop [OF assms]] digits_filter [OF digits_slice [OF assms]]
    separators_no_digits
  have us: "take 3 n @ slice 3 6 n @ drop 6 n = n"
    by (simp add: slice_drop)
  have gb: "take 4 n @ slice 4 7 n @ drop 7 n = n"
    by (simp add: slice_drop)
  have ne: "length n = 9 \<Longrightarrow> n \<noteq> []"
    by auto
  have au: "length n = 9 \<Longrightarrow> [n ! 0] @ slice 1 5 n @ drop 5 n = n"
    using first_and_rest [OF ne] by (simp add: slice_drop)
  have fr: "length n = 9 \<Longrightarrow>
      [n ! 0] @ slice 1 3 n @ slice 3 5 n @ slice 5 7 n @ drop 7 n = n"
    using first_and_rest [OF ne] by (simp add: slice_drop)
  have first: "length n = 9 \<Longrightarrow> is_digit (n ! 0)"
    using digits_first [OF assms ne] by simp
  show ?thesis
    unfolding apply_formatting_def Let_def
    using us gb au fr first by (simp add: d)
qed

lemma formatted_no_plus:
  assumes "list_all is_digit n"
  shows "\<not> prefix ''+'' (apply_formatting n country_info)"
proof (cases n)
  case Nil
  then show ?thesis by (simp add: apply_formatting_def Let_def slice_def)
next
  case (Cons x xs)
  with assms have "x \<noteq> CHR ''+''" by (auto simp: separators_no_digits)
  then show ?thesis
    by (simp add: apply_formatting_def Let_def Cons)
qed

lemma clean_formatted:
  assumes "list_all is_digit n"
  shows "clean_phone_number (apply_formatting n country_info) = n"
  by (simp add: clean_phone_number_def formatted_no_plus [OF assms] digits_of_formatted [OF assms])

lemma digits_no_plus:
  assumes "list_all is_digit n"
  shows "\<not> prefix (CHR ''+'' # s) n"
proof (cases n)
  case Nil
  then show ?thesis by simp
next
  case (Cons x xs)
  with assms have "x \<noteq> CHR ''+''" by (auto simp: separators_no_digits)
  then show ?thesis by (simp add: Cons)
qed

lemma phone_db_entries_by_hint:
  "list_all (\<lambda>(k, i). find (iso_code_matches (ph_country_code i)) INTERNATIONAL_PHONE_DATABASE
                          = Some (k, i)
                        \<and> ph_national_prefix i \<noteq> [])
     INTERNATIONAL_PHONE_DATABASE"
  by code_simp

lemma phone_db_entry_by_hint:
  assumes "(k, i) \<in> set INTERNATIONAL_PHONE_DATABASE"
  shows "find (iso_code_matches (ph_country_code i)) INTERNATIONAL_PHONE_DATABASE = Some (k, i)"
    and "ph_national_prefix i \<noteq> []"
  using assms phone_db_entries_by_hint by (auto simp: list_all_iff)

lemma parse_for_country_valid:
  "is_valid (parse_for_country c k i)
     = validate_number_for_country (national_number (parse_for_country c k i)) i"
  by (simp add: parse_for_country_def Let_def)

lemma prefix_drop_shorter:
  assumes "prefix p s" and "p \<noteq> []"
  shows "length (drop (length p) s) < length s"
  using assms by (auto simp: prefix_def)

lemma parse_for_country_national_number:
  assumes "list_all is_digit n"
    and "remove_plus (ph_calling_code i) \<noteq> []" and "ph_national_prefix i \<noteq> []"
  shows "national_number (parse_for_country n k i) = n
           \<longleftrightarrow> \<not> prefix (remove_plus (ph_calling_code i)) n \<and> \<not> prefix (ph_national_prefix i) n"
proof -
  let ?cc = "remove_plus (ph_calling_code i)"
  let ?np = "ph_national_prefix i"
  define stripped where "stripped = (if prefix ?cc n then drop (length ?cc) n else n)"
  have nn: "national_number (parse_for_country n k i)
              = (if prefix ?np stripped then drop (length ?np) stripped else stripped)"
    using digits_no_plus [OF assms(1)] assms(3)
    by (simp add: parse_for_country_def Let_def stripped_def)
  show ?thesis
  proof (cases "prefix ?cc n")
    case True
    then have "length stripped < length n"
      using prefix_drop_shorter [OF True assms(2)] by (simp add: stripped_def)
    then have "length (national_number (parse_for_country n k i)) < length n"
      unfolding nn by auto
    with True show ?thesis by auto
  next
    case False
    then have s: "stripped = n" by (simp add: stripped_def)
    show ?thesis
    proof (cases "prefix ?np n")
      case True
      from prefix_drop_shorter [OF True assms(3)]
      have "length (national_number (parse_for_country n k i)) < length n"
        unfolding nn s using True by simp
      with True show ?thesis by auto
    next
      case np: False
      with False show ?thesis unfolding nn s by simp
    qed
  qed
qed

lemma format_national: "format_number n country_info ''national'' = apply_formatting n country_info"
  by (simp add: format_number_def)

lemma india_round_trip_fails:
  "(''india'', india_phone) \<in> set INTERNATIONAL_PHONE_DATABASE
   \<and> list_all is_digit ''9123456789''
   \<and> validate_number_for_country ''9123456789'' india_phone
   \<and> ph_country_code india_phone = ''IN''
   \<and> format_number ''9123456789'' india_phone ''national'' = ''9123456789''"
  by code_simp

text \<open>
  Claim C1, as stated, fails on the code: \<open>_parse_for_country\<close> strips the digits of the
  calling code from the front of a number that has no \<open>+\<close>, and after that the national
  prefix. The ten-digit Indian mobile number \<open>9123456789\<close> passes the length rule of India
  and is rendered as it is; parsed again with the hint \<open>IN\<close> it loses the leading \<open>91\<close>,
  and the eight digits that remain are not valid.
\<close>

theorem round_trip_counterexample:
  "(''india'', india_phone) \<in> set INTERNATIONAL_PHONE_DATABASE
   \<and> list_all is_digit ''9123456789''
   \<and> validate_number_for_country ''9123456789'' india_phone
   \<and> ph_country_code india_phone = ''IN''
   \<and> parse_phone_number (format_number ''9123456789'' india_phone ''national'') (Some ''IN'') =
       Inr \<lparr>raw_number = ''9123456789'', formatted_number = ''23456789'',
          international_format = ''+91 23456789'', country_code = ''IN'',
          national_number = ''23456789'', area_code = None, is_valid = False,
          phone_type = ''landline'', country_name = ''India'', timezone = ''UTC''\<rparr>"
  by code_simp

text \<open>
  Claim C1, amended. For every country of the table and every national number that
  consists of ASCII digits and passes the length rule of the country: rendering the number
  in the national format and parsing the rendered string with the ISO code of the country
  as the hint gives a result, and the result has the original national number and is
  valid exactly when the number begins neither with the digits of the country's calling
  code nor with its national prefix.
\<close>

theorem format_parse_round_trip:
  assumes "(k, country_info) \<in> set INTERNATIONAL_PHONE_DATABASE"
    and "list_all is_digit n"
    and "validate_number_for_country n country_info"
  shows "\<exists>p. parse_phone_number (format_number n country_info ''national'')
                (Some (ph_country_code country_info)) = Inr p
            \<and> (national_number p = n \<and> is_valid p
                 \<longleftrightarrow> \<not> prefix (remove_plus (ph_calling_code country_info)) n
                     \<and> \<not> prefix (ph_national_prefix country_info) n)"
proof -
  let ?f = "format_number n country_info ''national''"
  let ?p = "parse_for_country n k country_info"
  have c: "clean_phone_number ?f = n"
    by (simp add: format_national clean_formatted [OF assms(2)])
  have "\<not> prefix ''+'' n" using digits_no_plus [OF assms(2)] by simp
  then have "\<not> (prefix ''+'' (clean_phone_number ?f)
              \<and> find (calling_code_matches (clean_phone_number ?f)) INTERNATIONAL_PHONE_DATABASE \<noteq> None)"
    by (simp only: c) simp
  from resolved_by_hint [OF this phone_db_entry_by_hint(1) [OF assms(1)]]
  have "resolved_entry ?f (Some (ph_country_code country_info)) = (k, country_info)" .
  from resolved_parse [OF this]
  have p: "parse_phone_number ?f (Some (ph_country_code country_info)) = Inr ?p"
    by (simp only: c)
  have nn: "national_number ?p = n
           \<longleftrightarrow> \<not> prefix (remove_plus (ph_calling_code country_info)) n
               \<and> \<not> prefix (ph_national_prefix country_info) n"
    using assms(2) phone_db_entry_by_code(2) [OF assms(1)] phone_db_entry_by_hint(2) [OF assms(1)]
    by (rule parse_for_country_national_number)
  have "national_number ?p = n \<Longrightarrow> is_valid ?p"
    using assms(3) by (simp only: parse_for_country_valid)
  with nn have "national_number ?p = n \<and> is_valid ?p
                 \<longleftrightarrow> \<not> prefix (remove_plus (ph_calling_code country_info)) n
                     \<and> \<not> prefix (ph_national_prefix country_info) n"
    by blast
  with p show ?thesis by blast
qed

lemma india_calling_code:
  "remove_plus (ph_calling_code india_phone) = ''91''"
  by code_simp

lemma denver_round_trip_conditions:
  "list_all is_digit ''3035550123''
   \<and> validate_number_for_country ''3035550123'' united_states_phone
   \<and> format_number ''3035550123'' united_states_phone ''national'' = ''(303) 555-0123''
   \<and> ph_national_prefix united_states_phone = ''1''"
  by code_simp

text \<open>
  The Denver number is rendered as \<open>(303) 555-0123\<close> and comes back; the Indian number
  that begins with \<open>91\<close> does not.
\<close>

theorem format_parse_round_trip_witness:
  "(\<exists>p. parse_phone_number ''(303) 555-0123'' (Some ''US'') = Inr p
        \<and> national_number p = ''3035550123'' \<and> is_valid p)
   \<and> (\<exists>p. parse_phone_number ''9123456789'' (Some ''IN'') = Inr p
        \<and> \<not> (national_number p = ''9123456789'' \<and> is_valid p))"
  using format_parse_round_trip [of "''united_states''" united_states_phone "''3035550123''"]
    format_parse_round_trip [of "''india''" india_phone "''9123456789''"]
  by (simp add: phone_db_us denver_round_trip_conditions find_origin_gb india_round_trip_fails
      india_calling_code is_digit_def)

section \<open>Phone-type classification for Brazil\<close>

text \<open>
  Claim C8. For the Brazil profile the classification never returns \<open>premium\<close>: a national
  number that begins with \<open>900\<close> begins with the mobile prefix \<open>9\<close>, which is tested first,
  so it is classified \<open>mobile\<close>.
\<close>

theorem brazil_never_premium:
  "determine_phone_type n brazil_phone \<noteq> ''premium''
   \<and> (prefix ''900'' n \<longrightarrow> prefix ''9'' n \<and> determine_phone_type n brazil_phone = ''mobile'')"
  by (auto simp: determine_phone_type_def brazil_phone_def prefix_def)

theorem brazil_never_premium_witness:
  "prefix ''900'' ''90012345678''
   \<and> determine_phone_type ''90012345678'' brazil_phone = ''mobile''
   \<and> determine_phone_type ''90012345678'' brazil_phone \<noteq> ''premium''"
  using brazil_never_premium [of "''90012345678''"]
  by simp

section \<open>Searching with the empty query\<close>

lemma sublist_empty_lower: "sublist (lower_str []) s"
  by (simp add: lower_str_def)

lemma search_states_empty:
  "search_states (lower_str []) ck cd sts = map (\<lambda>(sk, sd). state_result ck cd sk sd) sts"
  by (induction sts) (auto simp: sublist_empty_lower)

lemma search_countries_empty:
  "search_countries (lower_str []) tbl =
     concat (map (\<lambda>(ck, cd). country_result ck cd
                    # map (\<lambda>(sk, sd). state_result ck cd sk sd) (j_states cd)) tbl)"
  by (induction tbl) (auto simp: sublist_empty_lower search_states_empty)

text \<open>
  Claim C10. \<open>search_jurisdictions\<close> with the empty query returns, for every country of
  the jurisdiction table in table order, the country's entry (its type \<open>country\<close>, key,
  name, code and legal system) followed at once by one state entry for each of its states
  in their order (the type \<open>state\<close>, the key and name of the country, the key, name,
  code and capital of the state, and the legal system of the country), and nothing else.
\<close>

theorem search_jurisdictions_empty_query:
  "search_jurisdictions '''' =
     concat (map (\<lambda>(country_key, country_data).
                    [(''type'', ''country''),
                     (''key'', country_key),
                     (''name'', j_country_name country_data),
                     (''code'', j_country_code country_data),
                     (''legal_system'', j_legal_system country_data)]
                    # map (\<lambda>(state_key, state_data).
                             [(''type'', ''state''),
                              (''country_key'', country_key),
                              (''country_name'', j_country_name country_data),
                              (''state_key'', state_key),
                              (''state_name'', st_name state_data),
                              (''state_code'', st_code state_data),
                              (''capital'', st_capital state_data),
                              (''legal_system'', j_legal_system country_data)])
                        (j_states country_data))
               INTERNATIONAL_JURISDICTIONS)"
  by (simp add: search_jurisdictions_def search_countries_empty [unfolded lower_str_def, simplified]
      lower_str_def country_result_def state_result_def)

text \<open>
  On the table of the source that is the following list of eighteen entries: the six
  countries, each followed at once by its states.
\<close>

theorem search_jurisdictions_empty_query_witness:
  "search_jurisdictions '''' =
     [[(''type'', ''country''),
       (''key'', ''united_states''),
       (''name'', ''United States''),
       (''code'', ''US''),
       (''legal_system'', ''common_law'')],
      [(''type'', ''state''),
       (''country_key'', ''united_states''),
       (''country_name'', ''United States''),
       (''state_key'', ''colorado''),
       (''state_name'', ''Colorado''),
       (''state_code'', ''CO''),
       (''capital'', ''Denver''),
       (''legal_system'', ''common_law'')],
      [(''type'', ''state''),
       (''country_key'', ''united_states''),
       (''country_name'', ''United States''),
       (''state_key'', ''california''),
       (''state_name'', ''California''),
       (''state_code'', ''CA''),
       (''capital'', ''Sacramento''),
       (''legal_system'', ''common_law'')],
      [(''type'', ''state''),
       (''country_key'', ''united_states''),
       (''country_name'', ''United States''),
       (''state_key'', ''new_york''),
       (''state_name'', ''New York''),
       (''state_code'', ''NY''),
       (''capital'', ''Albany''),
       (''legal_system'', ''common_law'')],
      [(''type'', ''country''),
       (''key'', ''canada''),
       (''name'', ''Canada''),
       (''code'', ''CA''),
       (''legal_system'', ''common_law'')],
      [(''type'', ''state''),
       (''country_key'', ''canada''),
       (''country_name'', ''Canada''),
       (''state_key'', ''ontario''),
       (''state_name'', ''Ontario''),
       (''state_code'', ''ON''),
       (''capital'', ''Toronto''),
       (''legal_system'', ''common_law'')],
      [(''type'', ''state''),
       (''country_key'', ''canada''),
       (''country_name'', ''Canada''),
       (''state_key'', ''british_columbia''),
       (''state_name'', ''British Columbia''),
       (''state_code'', ''BC''),
       (''capital'', ''Victoria''),
       (''legal_system'', ''common_law'')],
      [(''type'', ''country''),
       (''key'', ''australia''),
       (''name'', ''Australia''),
       (''code'', ''AU''),
       (''legal_system'', ''common_law'')],
      [(''type'', ''state''),
       (''country_key'', ''australia''),
       (''country_name'', ''Australia''),
       (''state_key'', ''new_south_wales''),
       (''state_name'', ''New South Wales''),
       (''state_code'', ''NSW''),
       (''capital'', ''Sydney''),
       (''legal_system'', ''common_law'')],
      [(''type'', ''state''),
       (''country_key'', ''australia''),
       (''country_name'', ''Australia''),
       (''state_key'', ''victoria''),
       (''state_name'', ''Victoria''),
       (''state_code'', ''VIC''),
       (''capital'', ''Melbourne''),
       (''legal_system'', ''common_law'')],
      [(''type'', ''country''),
       (''key'', ''united_kingdom''),
       (''name'', ''United Kingdom''),
       (''code'', ''GB''),
       (''legal_system'', ''common_law'')],
      [(''type'', ''state''),
       (''country_key'', ''united_kingdom''),
       (''country_name'', ''United Kingdom''),
       (''state_key'', ''england''),
       (''state_name'', ''England''),
       (''state_code'', ''ENG''),
       (''capital'', ''London''),
       (''legal_system'', ''common_law'')],
      [(''type'', ''state''),
       (''country_key'', ''united_kingdom''),
       (''country_name'', ''United Kingdom''),
       (''state_key'', ''scotland''),
       (''state_name'', ''Scotland''),
       (''state_code'', ''SCT''),
       (''capital'', ''Edinburgh''),
       (''legal_system'', ''common_law'')],
      [(''type'', ''country''),
       (''key'', ''germany''),
       (''name'', ''Germany''),
       (''code'', ''DE''),
       (''legal_system'', ''civil_law'')],
      [(''type'', ''state''),
       (''country_key'', ''germany''),
       (''country_name'', ''Germany''),
       (''state_key'', ''bavaria''),
       (''state_name'', ''Bavaria''),
       (''state_code'', ''BY''),
       (''capital'', ''Munich''),
       (''legal_system'', ''civil_law'')],
      [(''type'', ''state''),
       (''country_key'', ''germany''),
       (''country_name'', ''Germany''),
       (''state_key'', ''north_rhine_westphalia''),
       (''state_name'', ''North Rhine-Westphalia''),
       (''state_code'', ''NW''),
       (''capital'', ''D'' @ [CHR 0xC3, CHR 0xBC] @ ''sseldorf''),
       (''legal_system'', ''civil_law'')],
      [(''type'', ''country''),
       (''key'', ''france''),
       (''name'', ''France''),
       (''code'', ''FR''),
       (''legal_system'', ''civil_law'')],
      [(''type'', ''state''),
       (''country_key'', ''france''),
       (''country_name'', ''France''),
       (''state_key'', ''ile_de_france''),
       (''state_name'', [CHR 0xC3, CHR 0x8E] @ ''le-de-France''),
       (''state_code'', ''IDF''),
       (''capital'', ''Paris''),
       (''legal_system'', ''civil_law'')]]"
  using search_jurisdictions_empty_query
  by (simp add: INTERNATIONAL_JURISDICTIONS_def united_states_jurisdiction_def
      canada_jurisdiction_def australia_jurisdiction_def united_kingdom_jurisdiction_def
      germany_jurisdiction_def france_jurisdiction_def)

section \<open>Equivalent claim types\<close>

text \<open>
  What the code computes: a category contributes the list of the target system when that
  list itself holds the claim type.
\<close>

lemma systems_loop_own_list:
  assumes "x \<in> set (systems_loop systems claim_type target)"
  shows "\<exists>claims. (target, claims) \<in> set systems
           \<and> lower_str claim_type \<in> set (map lower_str claims) \<and> x \<in> set claims"
  using assms
proof (induction systems)
  case Nil
  then show ?case by simp
next
  case (Cons e systems)
  obtain system claims where e: "e = (system, claims)" by (cases e)
  show ?case
  proof (cases "system = target \<and> lower_str claim_type \<in> set (map lower_str claims)")
    case True
    with Cons.prems e have "x \<in> set claims" by simp
    with True e show ?thesis by auto
  next
    case False
    with Cons.prems e have "x \<in> set (systems_loop systems claim_type target)" by auto
    from Cons.IH [OF this] show ?thesis by auto
  qed
qed

text \<open>
  Claim C2 describes a translation across legal systems: the membership test is made
  against the list of the source system, the result is the list of the target system.
  The code tests the list of the target system itself. For \<open>wrongful_termination\<close>, a
  common-law claim type, and the target \<open>civil_law\<close> the code returns the empty set, where
  the function the claim describes returns the four civil-law employment claim types.
\<close>

theorem find_equivalent_claim_types_cross_system:
  "find_equivalent_claim_types ''wrongful_termination'' ''civil_law'' = {}
   \<and> spec_find_equivalent_claim_types ''wrongful_termination'' ''civil_law''
       = {''employment_termination'', ''workplace_discrimination'', ''employee_protection'',
          ''salary_disputes''}"
  by code_simp

section \<open>Loading the cases of a jurisdiction\<close>

lemma get_lower_string_fields:
  assumes "string_fields c" and "key \<in> {''country'', ''state_province'', ''jurisdiction''}"
  shows "get_lower c key = Inr (field_lower c key)"
proof (cases c)
  case NotACase
  with assms show ?thesis by (simp add: string_fields_def)
next
  case (Case obj)
  with assms have "map_of obj key \<noteq> Some JOther"
    by (auto simp: string_fields_def)
  then show ?thesis
    by (cases "map_of obj key"; cases "the (map_of obj key)")
      (auto simp: get_lower_def field_lower_def Case)
qed

lemma case_selected_string_fields:
  assumes "string_fields c"
  shows "case_selected c country_key state_key =
           Inr (modern_match c country_key state_key
                \<or> (field_lower c ''country'' \<noteq> lower_str country_key \<and> legacy_match c state_key))"
  by (simp add: case_selected_def get_lower_string_fields [OF assms] modern_match_def
      legacy_match_def)

lemma filter_cases_string_fields:
  assumes "list_all string_fields cases"
  shows "filter_cases cases country_key state_key =
           Inr (filter (\<lambda>c. modern_match c country_key state_key
                             \<or> (field_lower c ''country'' \<noteq> lower_str country_key
                                 \<and> legacy_match c state_key)) cases)"
  using assms by (induction cases) (simp_all add: case_selected_string_fields)

lemma get_lower_not_string:
  assumes "map_of obj key = Some JOther"
  shows "get_lower (Case obj) key = Inl AttributeError"
  using assms by (simp add: get_lower_def)

lemma case_selected_error:
  assumes "\<not> string_fields c"
  shows "\<exists>e. case_selected c country_key state_key = Inl e"
proof (cases c)
  case NotACase
  then show ?thesis by (simp add: case_selected_def get_lower_def)
next
  case (Case obj)
  with assms consider "map_of obj ''country'' = Some JOther"
    | "map_of obj ''state_province'' = Some JOther"
    | "map_of obj ''jurisdiction'' = Some JOther"
    by (auto simp: string_fields_def)
  then show ?thesis
  proof cases
    case 1
    then show ?thesis by (simp add: case_selected_def Case get_lower_not_string)
  next
    case 2
    then show ?thesis
      by (simp add: case_selected_def Case get_lower_not_string split: sum.splits)
  next
    case 3
    then show ?thesis
      by (simp add: case_selected_def Case get_lower_not_string split: sum.splits)
  qed
qed

lemma filter_cases_error:
  assumes "\<not> list_all string_fields cases"
  shows "\<exists>e. filter_cases cases country_key state_key = Inl e"
  using assms
proof (induction cases)
  case Nil
  then show ?case by simp
next
  case (Cons c cases)
  show ?case
  proof (cases "string_fields c")
    case True
    with Cons.prems have "\<not> list_all string_fields cases" by simp
    from Cons.IH [OF this] obtain e where "filter_cases cases country_key state_key = Inl e" ..
    then show ?thesis by (simp add: case_selected_string_fields [OF True])
  next
    case False
    from case_selected_error [OF this] obtain e where "case_selected c country_key state_key = Inl e" ..
    then show ?thesis by simp
  qed
qed

lemma load_no_file:
  assumes "\<forall>path \<in> set case_file_paths. fs path = None"
  shows "load_cases_by_jurisdiction fs country_key state_key = []"
  using assms by (simp add: load_cases_by_jurisdiction_def case_file_paths_def)

lemma load_first_file:
  assumes "find (\<lambda>path. fs path \<noteq> None) case_file_paths = Some path"
    and "fs path = Some (CaseList cases)"
  shows "load_cases_by_jurisdiction fs country_key state_key =
           (case filter_cases cases country_key state_key of Inl e \<Rightarrow> [] | Inr filtered \<Rightarrow> filtered)"
  using assms
  by (auto simp: load_cases_by_jurisdiction_def case_file_paths_def split: if_splits)

lemma example_fs_find:
  "find (\<lambda>path. example_fs path \<noteq> None) case_file_paths = Some ''client_cases.json''
   \<and> example_fs ''client_cases.json'' = Some (CaseList example_cases)
   \<and> list_all string_fields example_cases"
  by (simp add: example_fs_def case_file_paths_def example_cases_def string_fields_def)

lemma null_country_fs_find:
  "find (\<lambda>path. null_country_fs path \<noteq> None) case_file_paths = Some ''../data/client_cases.json''
   \<and> null_country_fs ''../data/client_cases.json'' = Some (CaseList null_country_cases)
   \<and> \<not> list_all string_fields null_country_cases"
  by (simp add: null_country_fs_def case_file_paths_def null_country_cases_def string_fields_def)

lemma example_cases_selected:
  "filter (\<lambda>c. modern_match c ''united_states'' (Some ''colorado'')
                 \<or> (field_lower c ''country'' \<noteq> lower_str ''united_states''
                     \<and> legacy_match c (Some ''colorado''))) example_cases
     = [Case [(''case_id'', JStr ''C-2''), (''country'', JStr ''United_States''),
              (''state_province'', JStr ''Colorado'')],
        Case [(''case_id'', JStr ''C-3''), (''jurisdiction'', JStr ''colorado'')]]"
  by code_simp

text \<open>
  Claim C6, as stated, fails on the code: the legacy field is looked at only for a case
  whose country is not the country of the query. A case with the country
  \<open>united_states\<close>, no \<open>state_province\<close> and the legacy field \<open>colorado\<close> matches by the
  legacy field, so the claim has it in the result for \<open>united_states\<close>, \<open>colorado\<close>; the
  code leaves it out.
\<close>

theorem load_cases_by_jurisdiction_counterexample:
  "find (\<lambda>path. migrated_fs path \<noteq> None) case_file_paths = Some ''data/client_cases.json''
   \<and> migrated_fs ''data/client_cases.json'' = Some (CaseList [migrated_case])
   \<and> string_fields migrated_case
   \<and> legacy_match migrated_case (Some ''colorado'')
   \<and> filter (\<lambda>c. modern_match c ''united_states'' (Some ''colorado'')
                    \<or> legacy_match c (Some ''colorado'')) [migrated_case] = [migrated_case]
   \<and> load_cases_by_jurisdiction migrated_fs ''united_states'' (Some ''colorado'') = []"
  by code_simp

text \<open>
  Claim C6, amended. When no case file exists at any of the three paths the result is the
  empty list. When the first existing path holds a list of cases whose \<open>country\<close>,
  \<open>state_province\<close> and \<open>jurisdiction\<close> fields are strings where present, the result is, in
  the order of the file, exactly the cases that match by the modern fields (the country
  equals the query country and, when a state is given, the \<open>state_province\<close> equals the
  query state, both without regard to case) together with the cases whose country is not
  the query country and whose legacy \<open>jurisdiction\<close> field equals the given state. When
  some element of the list is no such case, the exception is caught and the result is
  the empty list. The function has no exceptional result.
\<close>

theorem load_cases_by_jurisdiction_selection:
  "((\<forall>path \<in> set case_file_paths. fs path = None)
      \<longrightarrow> load_cases_by_jurisdiction fs country_key state_key = [])
   \<and> (find (\<lambda>path. fs path \<noteq> None) case_file_paths = Some path
       \<and> fs path = Some (CaseList cases) \<and> list_all string_fields cases
      \<longrightarrow> load_cases_by_jurisdiction fs country_key state_key =
            filter (\<lambda>c. modern_match c country_key state_key
                         \<or> (field_lower c ''country'' \<noteq> lower_str country_key
                             \<and> legacy_match c state_key)) cases)
   \<and> (find (\<lambda>path. fs path \<noteq> None) case_file_paths = Some path
       \<and> fs path = Some (CaseList cases) \<and> \<not> list_all string_fields cases
      \<longrightarrow> load_cases_by_jurisdiction fs country_key state_key = [])"
proof (intro conjI impI)
  assume "\<forall>path \<in> set case_file_paths. fs path = None"
  then show "load_cases_by_jurisdiction fs country_key state_key = []"
    by (rule load_no_file)
next
  assume a: "find (\<lambda>path. fs path \<noteq> None) case_file_paths = Some path
       \<and> fs path = Some (CaseList cases) \<and> list_all string_fields cases"
  then have "load_cases_by_jurisdiction fs country_key state_key =
           (case filter_cases cases country_key state_key of Inl e \<Rightarrow> [] | Inr filtered \<Rightarrow> filtered)"
    by (simp add: load_first_file)
  also have "\<dots> = filter (\<lambda>c. modern_match c country_key state_key
                         \<or> (field_lower c ''country'' \<noteq> lower_str country_key
                             \<and> legacy_match c state_key)) cases"
    using a by (simp add: filter_cases_string_fields)
  finally show "load_cases_by_jurisdiction fs country_key state_key =
            filter (\<lambda>c. modern_match c country_key state_key
                         \<or> (field_lower c ''country'' \<noteq> lower_str country_key
                             \<and> legacy_match c state_key)) cases" .
next
  assume a: "find (\<lambda>path. fs path \<noteq> None) case_file_paths = Some path
       \<and> fs path = Some (CaseList cases) \<and> \<not> list_all string_fields cases"
  then obtain e where "filter_cases cases country_key state_key = Inl e"
    using filter_cases_error by blast
  with a show "load_cases_by_jurisdiction fs country_key state_key = []"
    by (simp add: load_first_file)
qed

text \<open>
  For \<open>united_states\<close>, \<open>colorado\<close> the example file gives the Colorado case in the modern
  form and the one in the legacy form, and neither the California nor the Texas case nor
  the one from Ontario; with no file the result is empty, and so it is for the file with
  the \<open>null\<close> country.
\<close>

theorem load_cases_by_jurisdiction_selection_witness:
  "load_cases_by_jurisdiction example_fs ''united_states'' (Some ''colorado'')
     = [Case [(''case_id'', JStr ''C-2''), (''country'', JStr ''United_States''),
              (''state_province'', JStr ''Colorado'')],
        Case [(''case_id'', JStr ''C-3''), (''jurisdiction'', JStr ''colorado'')]]
   \<and> load_cases_by_jurisdiction empty_fs ''united_states'' (Some ''colorado'') = []
   \<and> load_cases_by_jurisdiction null_country_fs ''united_states'' (Some ''colorado'') = []"
  using load_cases_by_jurisdiction_selection
      [where fs = example_fs and path = "''client_cases.json''" and cases = example_cases
         and country_key = "''united_states''" and state_key = "Some ''colorado''"]
    load_cases_by_jurisdiction_selection
      [where fs = empty_fs and path = "''client_cases.json''" and cases = example_cases
         and country_key = "''united_states''" and state_key = "Some ''colorado''"]
    load_cases_by_jurisdiction_selection
      [where fs = null_country_fs and path = "''../data/client_cases.json''"
         and cases = null_country_cases
         and country_key = "''united_states''" and state_key = "Some ''colorado''"]
  by (simp add: example_fs_find example_cases_selected empty_fs_def null_country_fs_find
      del: not_None_eq)

end
